theory Spec2Isabelle
  imports Main "HOL-Library.Word"
begin

section \<open>The JNI binding of TidesDB (com_tidesdb_TidesDB.c)\<close>

text \<open>
  The file \<^verbatim>\<open>src/main/c/com_tidesdb_TidesDB.c\<close> is the native half of the Java
  binding: every \<^verbatim>\<open>Java_com_tidesdb_*\<close> function unpacks its Java arguments through
  the JNI environment, makes one call into the storage engine, and turns the engine's
  answer into a Java value or a pending Java exception.

  The embedding keeps that shape. A native function is a HOL function from its
  arguments and the state of the JNI environment to its return value and the new state.
  The two collaborators it calls are parameters:
  \<^item> the engine, an oracle from the call made to the reply it gives (the engine's own
    state is hidden in the oracle, every native function asks it at most one question
    whose answer it reads);
  \<^item> the Java virtual machine, a record of what its class loader resolves and of how it
    hands out array elements.
\<close>

subsection \<open>Primitive types\<close>

type_synonym jint = int
  \<comment> \<open>C \<^verbatim>\<open>int\<close>, \<^verbatim>\<open>jint\<close>, \<^verbatim>\<open>jsize\<close>: no arithmetic is done on them but loop counters\<close>
type_synonym jlong = "64 word"
  \<comment> \<open>\<^verbatim>\<open>jlong\<close>, and \<^verbatim>\<open>size_t\<close>, \<^verbatim>\<open>uint64_t\<close>, \<^verbatim>\<open>time_t\<close>, \<^verbatim>\<open>uintptr_t\<close> of an LP64 target:
      a cast between them keeps the 64 bits\<close>
type_synonym jbyte = "8 word"
  \<comment> \<open>\<^verbatim>\<open>jbyte\<close> and \<^verbatim>\<open>uint8_t\<close>: the pointer casts reinterpret the same bytes\<close>
type_synonym jboolean = "8 word"
type_synonym jdouble = "64 word"
  \<comment> \<open>the IEEE-754 bits of a \<^verbatim>\<open>double\<close>: the binding does no arithmetic on one\<close>
type_synonym jfloat = "32 word"
type_synonym jstring = "string option"
  \<comment> \<open>a Java string reference or a \<^verbatim>\<open>const char *\<close>; \<open>None\<close> is null\<close>
type_synonym jbyteArray = nat
  \<comment> \<open>a reference to a Java byte array: its index in the heap\<close>

subsection \<open>The constants of tidesdb/db.h\<close>

text \<open>
  The header \<^verbatim>\<open>tidesdb/db.h\<close> belongs to the engine, not to this repository, so the
  values of its macros are a parameter of the model.
\<close>

record tdb_header =
  TDB_SUCCESS :: int
  TDB_ERR_MEMORY :: int
  TDB_ERR_INVALID_ARGS :: int
  TDB_ERR_NOT_FOUND :: int
  TDB_ERR_IO :: int
  TDB_ERR_CORRUPTION :: int
  TDB_ERR_EXISTS :: int
  TDB_ERR_CONFLICT :: int
  TDB_ERR_TOO_LARGE :: int
  TDB_ERR_MEMORY_LIMIT :: int
  TDB_ERR_INVALID_DB :: int
  TDB_ERR_LOCKED :: int
  TDB_MAX_COMPARATOR_NAME :: int

text \<open>
  The case labels of \<^verbatim>\<open>getErrorMessage\<close>'s switch, in the order of the source. A C
  switch with two equal case labels does not compile: in a header the binding builds
  against, the eleven are pairwise distinct.
\<close>

definition error_codes :: "tdb_header \<Rightarrow> int list" where
  "error_codes K =
     [TDB_ERR_MEMORY K, TDB_ERR_INVALID_ARGS K, TDB_ERR_NOT_FOUND K, TDB_ERR_IO K,
      TDB_ERR_CORRUPTION K, TDB_ERR_EXISTS K, TDB_ERR_CONFLICT K, TDB_ERR_TOO_LARGE K,
      TDB_ERR_MEMORY_LIMIT K, TDB_ERR_INVALID_DB K, TDB_ERR_LOCKED K]"

text \<open>A header to run the model on: success is 0, the errors are negative.\<close>

definition db_h :: tdb_header where
  "db_h = \<lparr>TDB_SUCCESS = 0, TDB_ERR_MEMORY = - 1, TDB_ERR_INVALID_ARGS = - 2,
          TDB_ERR_NOT_FOUND = - 3, TDB_ERR_IO = - 4, TDB_ERR_CORRUPTION = - 5,
          TDB_ERR_EXISTS = - 6, TDB_ERR_CONFLICT = - 7, TDB_ERR_TOO_LARGE = - 8,
          TDB_ERR_MEMORY_LIMIT = - 9, TDB_ERR_INVALID_DB = - 10, TDB_ERR_LOCKED = - 12,
          TDB_MAX_COMPARATOR_NAME = 64\<rparr>"

subsection \<open>getErrorMessage\<close>

definition getErrorMessage :: "tdb_header \<Rightarrow> int \<Rightarrow> string" where
  "getErrorMessage K code =
     (if code = TDB_ERR_MEMORY K then ''memory allocation failed''
      else if code = TDB_ERR_INVALID_ARGS K then ''invalid arguments''
      else if code = TDB_ERR_NOT_FOUND K then ''not found''
      else if code = TDB_ERR_IO K then ''I/O error''
      else if code = TDB_ERR_CORRUPTION K then ''data corruption''
      else if code = TDB_ERR_EXISTS K then ''already exists''
      else if code = TDB_ERR_CONFLICT K then ''transaction conflict''
      else if code = TDB_ERR_TOO_LARGE K then ''key or value too large''
      else if code = TDB_ERR_MEMORY_LIMIT K then ''memory limit exceeded''
      else if code = TDB_ERR_INVALID_DB K then ''invalid database handle''
      else if code = TDB_ERR_LOCKED K then ''database is locked''
      else ''unknown error'')"

text \<open>The table the claim describes: kind by kind, the message of the source.\<close>

definition error_messages :: "string list" where
  "error_messages =
     [''memory allocation failed'', ''invalid arguments'', ''not found'', ''I/O error'',
      ''data corruption'', ''already exists'', ''transaction conflict'',
      ''key or value too large'', ''memory limit exceeded'', ''invalid database handle'',
      ''database is locked'']"

subsection \<open>Java objects and the virtual machine\<close>

text \<open>
  A pending Java exception: its class, its message, and the error code when it was built
  by the constructor that takes one.
\<close>

record jthrowable =
  ex_class :: string
  ex_message :: string
  ex_code :: "int option"

text \<open>
  The objects the binding builds with \<^verbatim>\<open>NewObject\<close>, by the constructor signature it
  looks up: \<^verbatim>\<open>CacheStats(ZJJJJDJ)\<close> and
  \<^verbatim>\<open>Stats(IJ[J[ILcom/tidesdb/ColumnFamilyConfig;)\<close>. An array or object argument that is
  null is \<open>None\<close>.
\<close>

datatype jobject =
    CacheStats bool jlong jlong jlong jlong jdouble jlong
  | Stats jint jlong "jlong list option" "jint list option" "jobject option"

text \<open>
  What the binding cannot see of the virtual machine: the classes its loader resolves,
  each with the signatures of its constructors; whether \<^verbatim>\<open>GetStringUTFChars\<close> finds memory;
  whether \<^verbatim>\<open>GetByteArrayElements\<close> hands out a copy of the array or a pointer into it;
  and what it does where JNI defines nothing, when \<^verbatim>\<open>ThrowNew\<close> is called while an
  exception is pending: replace the pending exception, or keep it.
\<close>

record jvm =
  classes :: "(string \<times> string list) list"
  utf_chars_available :: bool
  elements_copied :: bool
  throw_replaces_pending :: bool

type_synonym jclass = string
type_synonym jmethodID = "string \<times> string"

text \<open>Blocks of native memory given to \<^verbatim>\<open>free\<close>, by what they held.\<close>

datatype c_block =
    Bytes "jbyte list"
  | Chars string
  | Pointers "string list"
  | Longs "jlong list"
  | Ints "jint list"

subsection \<open>The engine's structures\<close>

text \<open>
  Modelled from the spec: the structure declarations of \<^verbatim>\<open>tidesdb/db.h\<close>
  (\<^verbatim>\<open>tidesdb_config_t\<close>, \<^verbatim>\<open>tidesdb_column_family_config_t\<close>, \<^verbatim>\<open>tidesdb_cache_stats_t\<close>,
  \<^verbatim>\<open>tidesdb_stats_t\<close>) are not in the repository. Each structure has the fields the
  binding writes or reads, under the names the source uses, which are the configuration
  and statistics fields the interface section of the specification lists. A field the
  binding casts to or from \<^verbatim>\<open>jlong\<close> is 64 bits wide; the others are \<^verbatim>\<open>int\<close>, or the
  floating-point type of the parameter they are set from.
\<close>

record tidesdb_config_t =
  db_path :: string
  num_flush_threads :: int
  num_compaction_threads :: int
  log_level :: int
  block_cache_size :: "64 word"
  max_open_sstables :: "64 word"

record tidesdb_column_family_config_t =
  write_buffer_size :: "64 word"
  level_size_ratio :: "64 word"
  min_levels :: int
  dividing_level_offset :: int
  klog_value_threshold :: "64 word"
  compression_algorithm :: int
  enable_bloom_filter :: int
  bloom_fpr :: jdouble
  enable_block_indexes :: int
  index_sample_ratio :: int
  block_index_prefix_len :: int
  sync_mode :: int
  sync_interval_us :: "64 word"
  comparator_name :: string
  skip_list_max_level :: int
  skip_list_probability :: jfloat
  default_isolation_level :: int
  min_disk_space :: "64 word"
  l1_file_count_trigger :: int
  l0_queue_stall_threshold :: int

record tidesdb_cache_stats_t =
  enabled :: int
  total_entries :: "64 word"
  total_bytes :: "64 word"
  hits :: "64 word"
  misses :: "64 word"
  hit_rate :: jdouble
  num_partitions :: "64 word"

record tidesdb_stats_t =
  num_levels :: int
  memtable_size :: "64 word"
  level_sizes :: "64 word list option"
  level_num_sstables :: "int list option"

text \<open>A comparator the engine can call: the sign of its result orders two keys.\<close>

type_synonym tidesdb_comparator_fn = "jbyte list \<Rightarrow> jbyte list \<Rightarrow> int"

subsection \<open>The engine as an oracle\<close>

text \<open>
  One constructor for each engine function the binding calls, with the arguments it is
  given. A \<^verbatim>\<open>const char *\<close> that the source has checked against \<^verbatim>\<open>NULL\<close> is a
  \<open>string\<close>, one it passes on unchecked is a \<open>jstring\<close>; out-parameters are left out
  (they are in the reply).
\<close>

datatype engine_call =
    tidesdb_open tidesdb_config_t
  | tidesdb_close jlong
  | tidesdb_create_column_family jlong string tidesdb_column_family_config_t
  | tidesdb_drop_column_family jlong string
  | tidesdb_get_column_family jlong string
  | tidesdb_list_column_families jlong
  | tidesdb_txn_begin jlong
  | tidesdb_txn_begin_with_isolation jlong int
  | tidesdb_get_cache_stats jlong
  | tidesdb_register_comparator jlong string "tidesdb_comparator_fn option" jstring
      "jlong option"
  | tidesdb_backup jlong string
  | tidesdb_rename_column_family jlong string string
  | tidesdb_get_stats jlong
  | tidesdb_free_stats tidesdb_stats_t
  | tidesdb_compact jlong
  | tidesdb_flush_memtable jlong
  | tidesdb_is_flushing jlong
  | tidesdb_is_compacting jlong
  | tidesdb_cf_update_runtime_config jlong tidesdb_column_family_config_t int
  | tidesdb_txn_put jlong jlong "jbyte list" jint "jbyte list" jint jlong
  | tidesdb_txn_get jlong jlong "jbyte list" jint
  | tidesdb_txn_delete jlong jlong "jbyte list" jint
  | tidesdb_txn_commit jlong
  | tidesdb_txn_rollback jlong
  | tidesdb_txn_savepoint jlong jstring
  | tidesdb_txn_rollback_to_savepoint jlong jstring
  | tidesdb_txn_release_savepoint jlong jstring
  | tidesdb_iter_new jlong jlong
  | tidesdb_txn_free jlong
  | tidesdb_iter_seek_to_first jlong
  | tidesdb_iter_seek_to_last jlong
  | tidesdb_iter_seek jlong "jbyte list" jint
  | tidesdb_iter_seek_for_prev jlong "jbyte list" jint
  | tidesdb_iter_valid jlong
  | tidesdb_iter_next jlong
  | tidesdb_iter_prev jlong
  | tidesdb_iter_key jlong
  | tidesdb_iter_value jlong
  | tidesdb_iter_free jlong

text \<open>
  What a call leaves behind: the \<^verbatim>\<open>int\<close> (or pointer) it returns and what it stores
  through its out-parameters. A call reads the fields its signature has. The last two
  fields are what the engine wrote into the key and value buffers it was handed
  (\<open>None\<close>: it wrote nothing); the source passes them as plain \<^verbatim>\<open>uint8_t *\<close>.
\<close>

record engine_reply =
  result :: int
  out_pointer :: jlong
  out_names :: "string list"
  out_count :: int
  out_cache_stats :: tidesdb_cache_stats_t
  out_stats :: "tidesdb_stats_t option"
  out_bytes :: "jbyte list option"
  out_size :: "64 word"
  key_written :: "jbyte list option"
  value_written :: "jbyte list option"

type_synonym engine = "engine_call \<Rightarrow> engine_reply"

subsection \<open>The state of a native call\<close>

text \<open>
  The pending exception of the calling thread, the Java byte arrays (a reference is an
  index), the engine functions called so far, the blocks given to \<^verbatim>\<open>free\<close>, and a flag
  that is raised when the call leaves defined behaviour (it hands \<^verbatim>\<open>NULL\<close> to a JNI
  function that needs an object, or reads past the end of a native block).
\<close>

record jni_state =
  pending :: "jthrowable option"
  heap :: "jbyte list list"
  calls :: "engine_call list"
  freed :: "c_block list"
  undefined_behaviour :: bool

definition invoke :: "engine \<Rightarrow> engine_call \<Rightarrow> jni_state \<Rightarrow> engine_reply \<times> jni_state" where
  "invoke E c s = (E c, s\<lparr>calls := calls s @ [c]\<rparr>)"

definition free :: "c_block option \<Rightarrow> jni_state \<Rightarrow> jni_state" where
  "free p s = (case p of None \<Rightarrow> s | Some b \<Rightarrow> s\<lparr>freed := freed s @ [b]\<rparr>)"

subsection \<open>The JNI functions the binding uses\<close>

text \<open>
  \<^verbatim>\<open>FindClass\<close> and \<^verbatim>\<open>GetMethodID\<close> return \<^verbatim>\<open>NULL\<close> with an error of the virtual
  machine pending when the lookup fails. \<^verbatim>\<open>GetMethodID\<close> on a \<^verbatim>\<open>NULL\<close> class is outside
  the contract of JNI.
\<close>

definition FindClass :: "jvm \<Rightarrow> string \<Rightarrow> jni_state \<Rightarrow> jclass option \<times> jni_state" where
  "FindClass vm name s =
     (case map_of (classes vm) name of
        None \<Rightarrow> (None, s\<lparr>pending := Some \<lparr>ex_class = ''java/lang/NoClassDefFoundError'',
                                          ex_message = name, ex_code = None\<rparr>\<rparr>)
      | Some _ \<Rightarrow> (Some name, s))"

definition GetMethodID ::
  "jvm \<Rightarrow> jclass option \<Rightarrow> string \<Rightarrow> string \<Rightarrow> jni_state \<Rightarrow> jmethodID option \<times> jni_state"
  where
  "GetMethodID vm clazz name sig s =
     (case clazz of
        None \<Rightarrow> (None, s\<lparr>undefined_behaviour := True\<rparr>)
      | Some cls \<Rightarrow>
          if name = ''<init>'' \<and>
             (case map_of (classes vm) cls of None \<Rightarrow> False | Some sigs \<Rightarrow> sig \<in> set sigs)
          then (Some (cls, sig), s)
          else (None, s\<lparr>pending := Some \<lparr>ex_class = ''java/lang/NoSuchMethodError'',
                                          ex_message = name, ex_code = None\<rparr>\<rparr>))"

definition Throw :: "jthrowable \<Rightarrow> jni_state \<Rightarrow> jni_state" where
  "Throw exception s = s\<lparr>pending := Some exception\<rparr>"

text \<open>
  \<^verbatim>\<open>ThrowNew\<close> builds the exception from the class and the message. JNI allows the call
  only while no exception is pending; the binding makes it right after \<^verbatim>\<open>GetMethodID\<close>
  has failed, with the error of that lookup pending. The call is then outside defined
  behaviour, and which of the two exceptions is pending after it is the virtual
  machine's choice.
\<close>

definition ThrowNew :: "jvm \<Rightarrow> jclass \<Rightarrow> string \<Rightarrow> jni_state \<Rightarrow> jni_state" where
  "ThrowNew vm cls message s =
     (let thrown = s\<lparr>pending := Some \<lparr>ex_class = cls, ex_message = message,
                                        ex_code = None\<rparr>\<rparr>
      in case pending s of
           None \<Rightarrow> thrown
         | Some _ \<Rightarrow>
             (if throw_replaces_pending vm then thrown else s)\<lparr>undefined_behaviour := True\<rparr>)"

text \<open>
  \<^verbatim>\<open>GetStringUTFChars\<close> gives the characters of the string, or \<^verbatim>\<open>NULL\<close> when it finds
  no memory for them. Of a null reference, which JNI does not allow, the model gives
  \<^verbatim>\<open>NULL\<close> as well. \<^verbatim>\<open>ReleaseStringUTFChars\<close> changes nothing that is modelled.
\<close>

definition GetStringUTFChars :: "jvm \<Rightarrow> jstring \<Rightarrow> jstring" where
  "GetStringUTFChars vm str = (if utf_chars_available vm then str else None)"

definition GetArrayLength :: "jni_state \<Rightarrow> jbyteArray \<Rightarrow> jint" where
  "GetArrayLength s array = (if array < length (heap s) then int (length (heap s ! array)) else 0)"

definition GetByteArrayElements :: "jni_state \<Rightarrow> jbyteArray \<Rightarrow> jbyte list" where
  "GetByteArrayElements s array = (if array < length (heap s) then heap s ! array else [])"

text \<open>
  What a native write into borrowed elements does to the Java array: nothing while the
  elements are a copy, and the write itself when they are a pointer into the array. A
  write keeps the length of the block.
\<close>

definition written :: "jbyte list \<Rightarrow> jbyte list option \<Rightarrow> jbyte list" where
  "written elems w =
     (case w of None \<Rightarrow> elems | Some b \<Rightarrow> if length b = length elems then b else elems)"

definition native_write :: "jvm \<Rightarrow> jbyteArray \<Rightarrow> jbyte list \<Rightarrow> jni_state \<Rightarrow> jni_state" where
  "native_write vm array elems s =
     (if elements_copied vm then s else s\<lparr>heap := (heap s)[array := elems]\<rparr>)"

datatype release_mode = Copy_back_and_free | JNI_COMMIT | JNI_ABORT

definition ReleaseByteArrayElements ::
  "jvm \<Rightarrow> jbyteArray \<Rightarrow> jbyte list \<Rightarrow> release_mode \<Rightarrow> jni_state \<Rightarrow> jni_state" where
  "ReleaseByteArrayElements vm array elems mode s =
     (if elements_copied vm \<and> mode \<noteq> JNI_ABORT then s\<lparr>heap := (heap s)[array := elems]\<rparr>
      else s)"

text \<open>
  \<^verbatim>\<open>NewByteArray\<close> and its siblings give a zero-filled array, or \<^verbatim>\<open>NULL\<close> and a pending
  \<^verbatim>\<open>NegativeArraySizeException\<close>. A byte array lives in the heap, at the next free index.
  \<^verbatim>\<open>SetByteArrayRegion\<close> copies \<open>len\<close> elements of a native block into an array; a
  \<^verbatim>\<open>NULL\<close> array, and a block shorter than \<open>len\<close>, are outside defined behaviour.
\<close>

definition negative_array_size :: jthrowable where
  "negative_array_size =
     \<lparr>ex_class = ''java/lang/NegativeArraySizeException'', ex_message = [], ex_code = None\<rparr>"

definition NewByteArray :: "jint \<Rightarrow> jni_state \<Rightarrow> jbyteArray option \<times> jni_state" where
  "NewByteArray len s =
     (if len < 0 then (None, s\<lparr>pending := Some negative_array_size\<rparr>)
      else (Some (length (heap s)), s\<lparr>heap := heap s @ [replicate (nat len) 0]\<rparr>))"

definition SetByteArrayRegion ::
  "jbyteArray option \<Rightarrow> jint \<Rightarrow> jint \<Rightarrow> jbyte list option \<Rightarrow> jni_state \<Rightarrow> jni_state" where
  "SetByteArrayRegion array start len buf s =
     (case array of
        None \<Rightarrow> s\<lparr>undefined_behaviour := True\<rparr>
      | Some a \<Rightarrow>
          if len \<le> 0 then s
          else (case buf of
                  None \<Rightarrow> s\<lparr>undefined_behaviour := True\<rparr>
                | Some b \<Rightarrow>
                    if nat len > length b then s\<lparr>undefined_behaviour := True\<rparr>
                    else s\<lparr>heap := (heap s)[a := take (nat start) (heap s ! a) @ take (nat len) b
                                                 @ drop (nat start + nat len) (heap s ! a)]\<rparr>))"

definition NewArray :: "jint \<Rightarrow> jni_state \<Rightarrow> ('a::zero) list option \<times> jni_state" where
  "NewArray len s =
     (if len < 0 then (None, s\<lparr>pending := Some negative_array_size\<rparr>)
      else (Some (replicate (nat len) 0), s))"

definition SetArrayRegion ::
  "'a list option \<Rightarrow> jint \<Rightarrow> jint \<Rightarrow> 'a list \<Rightarrow> jni_state \<Rightarrow> 'a list option \<times> jni_state" where
  "SetArrayRegion array start len buf s =
     (case array of
        None \<Rightarrow> (None, s\<lparr>undefined_behaviour := True\<rparr>)
      | Some a \<Rightarrow>
          if len \<le> 0 then (Some a, s)
          else (Some (take (nat start) a @ take (nat len) buf @ drop (nat start + nat len) a), s))"

text \<open>\<^verbatim>\<open>NewObject\<close> needs the class and the constructor that were looked up.\<close>

definition NewObject ::
  "jclass option \<Rightarrow> jmethodID option \<Rightarrow> jobject \<Rightarrow> jni_state \<Rightarrow> jobject option \<times> jni_state" where
  "NewObject cls constructor obj s =
     (case (cls, constructor) of
        (Some _, Some _) \<Rightarrow> (Some obj, s)
      | _ \<Rightarrow> (None, s\<lparr>undefined_behaviour := True\<rparr>))"

subsection \<open>throwTidesDBException\<close>

definition throwTidesDBException :: "jvm \<Rightarrow> int \<Rightarrow> string \<Rightarrow> jni_state \<Rightarrow> jni_state" where
  "throwTidesDBException vm errorCode message s =
     (case FindClass vm ''com/tidesdb/TidesDBException'' s of
        (None, s1) \<Rightarrow> s1
      | (Some exClass, s1) \<Rightarrow>
          (case GetMethodID vm (Some exClass) ''<init>'' ''(Ljava/lang/String;I)V'' s1 of
             (None, s2) \<Rightarrow> ThrowNew vm exClass message s2
           | (Some constructor, s2) \<Rightarrow>
               Throw \<lparr>ex_class = exClass, ex_message = message, ex_code = Some errorCode\<rparr> s2))"

subsection \<open>Casts\<close>

text \<open>
  \<^verbatim>\<open>(size_t)\<close>, \<^verbatim>\<open>(uint64_t)\<close>, \<^verbatim>\<open>(time_t)\<close> of a \<^verbatim>\<open>jlong\<close> and \<^verbatim>\<open>(jlong)\<close> of one of them
  are \<open>ucast\<close> between 64-bit words. A \<^verbatim>\<open>size_t\<close> passed where JNI takes a
  \<^verbatim>\<open>jsize\<close> keeps its low 32 bits, read as a signed number.
\<close>

definition to_jsize :: "64 word \<Rightarrow> jint" where
  "to_jsize n = sint (ucast n :: 32 word)"

definition to_int_bool :: "jboolean \<Rightarrow> int" where
  "to_int_bool b = (if b \<noteq> 0 then 1 else 0)"

text \<open>
  \<^verbatim>\<open>strncpy\<close> into a zeroed buffer: at most \<open>n\<close> characters of the source (all of them
  when \<open>n\<close>, a \<^verbatim>\<open>size_t\<close>, comes from a negative number).
\<close>

definition strncpy :: "string \<Rightarrow> int \<Rightarrow> string" where
  "strncpy src n = (if n < 0 then src else take (nat n) src)"

subsection \<open>Database\<close>

definition nativeOpen ::
  "tdb_header \<Rightarrow> jvm \<Rightarrow> engine \<Rightarrow> jstring \<Rightarrow> jint \<Rightarrow> jint \<Rightarrow> jint \<Rightarrow> jlong \<Rightarrow> jlong \<Rightarrow>
   jni_state \<Rightarrow> jlong \<times> jni_state" where
  "nativeOpen K vm E dbPath numFlushThreads numCompactionThreads logLevel blockCacheSize
       maxOpenSSTables s =
     (case GetStringUTFChars vm dbPath of
        None \<Rightarrow>
          (0, throwTidesDBException vm (TDB_ERR_MEMORY K) ''Failed to get database path'' s)
      | Some path \<Rightarrow>
          let config = \<lparr>db_path = path,
                        num_flush_threads = numFlushThreads,
                        num_compaction_threads = numCompactionThreads,
                        log_level = logLevel,
                        block_cache_size = ucast blockCacheSize,
                        max_open_sstables = ucast maxOpenSSTables\<rparr>;
              (r, s1) = invoke E (tidesdb_open config) s;
              db = out_pointer r
          in if result r \<noteq> TDB_SUCCESS K
             then (0, throwTidesDBException vm (result r) (getErrorMessage K (result r)) s1)
             else (db, s1))"

definition nativeClose :: "engine \<Rightarrow> jlong \<Rightarrow> jni_state \<Rightarrow> jni_state" where
  "nativeClose E handle s =
     (let db = handle
      in if db \<noteq> 0 then snd (invoke E (tidesdb_close db) s) else s)"

definition nativeCreateColumnFamily ::
  "tdb_header \<Rightarrow> jvm \<Rightarrow> engine \<Rightarrow> jlong \<Rightarrow> jstring \<Rightarrow> jlong \<Rightarrow> jlong \<Rightarrow> jint \<Rightarrow> jint \<Rightarrow> jlong \<Rightarrow>
   jint \<Rightarrow> jboolean \<Rightarrow> jdouble \<Rightarrow> jboolean \<Rightarrow> jint \<Rightarrow> jint \<Rightarrow> jint \<Rightarrow> jlong \<Rightarrow> jstring \<Rightarrow> jint \<Rightarrow>
   jfloat \<Rightarrow> jint \<Rightarrow> jlong \<Rightarrow> jint \<Rightarrow> jint \<Rightarrow> jni_state \<Rightarrow> jni_state" where
  "nativeCreateColumnFamily K vm E handle name writeBufferSize levelSizeRatio minLevels
       dividingLevelOffset klogValueThreshold compressionAlgorithm enableBloomFilter bloomFPR
       enableBlockIndexes indexSampleRatio blockIndexPrefixLen syncMode syncIntervalUs
       comparatorName skipListMaxLevel skipListProbability defaultIsolationLevel minDiskSpace
       l1FileCountTrigger l0QueueStallThreshold s =
     (let db = handle
      in case GetStringUTFChars vm name of
           None \<Rightarrow>
             throwTidesDBException vm (TDB_ERR_MEMORY K) ''Failed to get column family name'' s
         | Some cfName \<Rightarrow>
             let compName = (if comparatorName \<noteq> None then GetStringUTFChars vm comparatorName
                             else None);
                 config = \<lparr>write_buffer_size = ucast writeBufferSize,
                           level_size_ratio = ucast levelSizeRatio,
                           min_levels = minLevels,
                           dividing_level_offset = dividingLevelOffset,
                           klog_value_threshold = ucast klogValueThreshold,
                           compression_algorithm = compressionAlgorithm,
                           enable_bloom_filter = to_int_bool enableBloomFilter,
                           bloom_fpr = bloomFPR,
                           enable_block_indexes = to_int_bool enableBlockIndexes,
                           index_sample_ratio = indexSampleRatio,
                           block_index_prefix_len = blockIndexPrefixLen,
                           sync_mode = syncMode,
                           sync_interval_us = ucast syncIntervalUs,
                           comparator_name = [],
                           skip_list_max_level = skipListMaxLevel,
                           skip_list_probability = skipListProbability,
                           default_isolation_level = defaultIsolationLevel,
                           min_disk_space = ucast minDiskSpace,
                           l1_file_count_trigger = l1FileCountTrigger,
                           l0_queue_stall_threshold = l0QueueStallThreshold\<rparr>;
                 config1 = (case compName of
                              None \<Rightarrow> config
                            | Some c \<Rightarrow>
                                if length c > 0
                                then config\<lparr>comparator_name :=
                                              strncpy c (TDB_MAX_COMPARATOR_NAME K - 1)\<rparr>
                                else config);
                 (r, s1) = invoke E (tidesdb_create_column_family db cfName config1) s
             in if result r \<noteq> TDB_SUCCESS K
                then throwTidesDBException vm (result r) (getErrorMessage K (result r)) s1
                else s1)"

definition nativeDropColumnFamily ::
  "tdb_header \<Rightarrow> jvm \<Rightarrow> engine \<Rightarrow> jlong \<Rightarrow> jstring \<Rightarrow> jni_state \<Rightarrow> jni_state" where
  "nativeDropColumnFamily K vm E handle name s =
     (let db = handle
      in case GetStringUTFChars vm name of
           None \<Rightarrow>
             throwTidesDBException vm (TDB_ERR_MEMORY K) ''Failed to get column family name'' s
         | Some cfName \<Rightarrow>
             let (r, s1) = invoke E (tidesdb_drop_column_family db cfName) s
             in if result r \<noteq> TDB_SUCCESS K
                then throwTidesDBException vm (result r) (getErrorMessage K (result r)) s1
                else s1)"


text \<open>
  The loop of \<^verbatim>\<open>nativeListColumnFamilies\<close>: element \<open>i\<close> of the Java array becomes a
  string of \<^verbatim>\<open>names[i]\<close>, which is then freed.
\<close>

function list_names_loop ::
  "string list \<Rightarrow> int \<Rightarrow> int \<Rightarrow> jstring list option \<Rightarrow> jni_state \<Rightarrow>
   jstring list option \<times> jni_state" where
  "list_names_loop names count i array s =
     (if i < count then
        (if i < 0 \<or> nat i \<ge> length names then (array, s\<lparr>undefined_behaviour := True\<rparr>)
         else
           let str = Some (names ! nat i)
           in case array of
                None \<Rightarrow> (None, s\<lparr>undefined_behaviour := True\<rparr>)
              | Some a \<Rightarrow>
                  list_names_loop names count (i + 1) (Some (a[nat i := str]))
                    (free (Some (Chars (names ! nat i))) s))
      else (array, s))"
  by pat_completeness auto
termination
  by (relation "measure (\<lambda>(names, count, i, array, s). nat (count - i))") auto

declare list_names_loop.simps [simp del]

definition NewObjectArray ::
  "jint \<Rightarrow> jclass option \<Rightarrow> jni_state \<Rightarrow> jstring list option \<times> jni_state" where
  "NewObjectArray len cls s =
     (case cls of
        None \<Rightarrow> (None, s\<lparr>undefined_behaviour := True\<rparr>)
      | Some _ \<Rightarrow>
          if len < 0 then (None, s\<lparr>pending := Some negative_array_size\<rparr>)
          else (Some (replicate (nat len) None), s))"

definition nativeListColumnFamilies ::
  "tdb_header \<Rightarrow> jvm \<Rightarrow> engine \<Rightarrow> jlong \<Rightarrow> jni_state \<Rightarrow> jstring list option \<times> jni_state" where
  "nativeListColumnFamilies K vm E handle s =
     (let db = handle;
          (r, s1) = invoke E (tidesdb_list_column_families db) s;
          names = out_names r;
          count = out_count r
      in if result r \<noteq> TDB_SUCCESS K
         then (None, throwTidesDBException vm (result r) (getErrorMessage K (result r)) s1)
         else
           let (stringClass, s2) = FindClass vm ''java/lang/String'' s1;
               (array, s3) = NewObjectArray count stringClass s2;
               (array1, s4) = list_names_loop names count 0 array s3
           in (array1, free (Some (Pointers names)) s4))"

definition nativeBeginTransaction ::
  "tdb_header \<Rightarrow> jvm \<Rightarrow> engine \<Rightarrow> jlong \<Rightarrow> jni_state \<Rightarrow> jlong \<times> jni_state" where
  "nativeBeginTransaction K vm E handle s =
     (let db = handle;
          (r, s1) = invoke E (tidesdb_txn_begin db) s;
          txn = out_pointer r
      in if result r \<noteq> TDB_SUCCESS K
         then (0, throwTidesDBException vm (result r) (getErrorMessage K (result r)) s1)
         else (txn, s1))"

definition nativeBeginTransactionWithIsolation ::
  "tdb_header \<Rightarrow> jvm \<Rightarrow> engine \<Rightarrow> jlong \<Rightarrow> jint \<Rightarrow> jni_state \<Rightarrow> jlong \<times> jni_state" where
  "nativeBeginTransactionWithIsolation K vm E handle isolationLevel s =
     (let db = handle;
          (r, s1) = invoke E (tidesdb_txn_begin_with_isolation db isolationLevel) s;
          txn = out_pointer r
      in if result r \<noteq> TDB_SUCCESS K
         then (0, throwTidesDBException vm (result r) (getErrorMessage K (result r)) s1)
         else (txn, s1))"

definition nativeGetCacheStats ::
  "tdb_header \<Rightarrow> jvm \<Rightarrow> engine \<Rightarrow> jlong \<Rightarrow> jni_state \<Rightarrow> jobject option \<times> jni_state" where
  "nativeGetCacheStats K vm E handle s =
     (let db = handle;
          (r, s1) = invoke E (tidesdb_get_cache_stats db) s;
          stats = out_cache_stats r
      in if result r \<noteq> TDB_SUCCESS K
         then (None, throwTidesDBException vm (result r) (getErrorMessage K (result r)) s1)
         else
           let (cacheStatsClass, s2) = FindClass vm ''com/tidesdb/CacheStats'' s1;
               (constructor, s3) = GetMethodID vm cacheStatsClass ''<init>'' ''(ZJJJJDJ)V'' s2
           in NewObject cacheStatsClass constructor
                (CacheStats (enabled stats \<noteq> 0) (ucast (total_entries stats))
                   (ucast (total_bytes stats)) (ucast (hits stats)) (ucast (misses stats))
                   (hit_rate stats) (ucast (num_partitions stats)))
                s3)"

definition nativeRegisterComparator ::
  "tdb_header \<Rightarrow> jvm \<Rightarrow> engine \<Rightarrow> jlong \<Rightarrow> jstring \<Rightarrow> jstring \<Rightarrow> jni_state \<Rightarrow> jni_state" where
  "nativeRegisterComparator K vm E handle name context s =
     (let db = handle
      in case GetStringUTFChars vm name of
           None \<Rightarrow>
             throwTidesDBException vm (TDB_ERR_MEMORY K) ''Failed to get comparator name'' s
         | Some compName \<Rightarrow>
             let ctx = (if context \<noteq> None then GetStringUTFChars vm context else None);
                 (r, s1) = invoke E (tidesdb_register_comparator db compName None ctx None) s
             in if result r \<noteq> TDB_SUCCESS K
                then throwTidesDBException vm (result r) (getErrorMessage K (result r)) s1
                else s1)"

definition nativeBackup ::
  "tdb_header \<Rightarrow> jvm \<Rightarrow> engine \<Rightarrow> jlong \<Rightarrow> jstring \<Rightarrow> jni_state \<Rightarrow> jni_state" where
  "nativeBackup K vm E handle dir s =
     (let db = handle
      in case GetStringUTFChars vm dir of
           None \<Rightarrow>
             throwTidesDBException vm (TDB_ERR_MEMORY K) ''Failed to get backup directory'' s
         | Some backupDir \<Rightarrow>
             let (r, s1) = invoke E (tidesdb_backup db backupDir) s
             in if result r \<noteq> TDB_SUCCESS K
                then throwTidesDBException vm (result r) (getErrorMessage K (result r)) s1
                else s1)"

definition nativeRenameColumnFamily ::
  "tdb_header \<Rightarrow> jvm \<Rightarrow> engine \<Rightarrow> jlong \<Rightarrow> jstring \<Rightarrow> jstring \<Rightarrow> jni_state \<Rightarrow> jni_state" where
  "nativeRenameColumnFamily K vm E handle oldName newName s =
     (let db = handle
      in case GetStringUTFChars vm oldName of
           None \<Rightarrow>
             throwTidesDBException vm (TDB_ERR_MEMORY K)
               ''Failed to get old column family name'' s
         | Some oldCfName \<Rightarrow>
             (case GetStringUTFChars vm newName of
                None \<Rightarrow>
                  throwTidesDBException vm (TDB_ERR_MEMORY K)
                    ''Failed to get new column family name'' s
              | Some newCfName \<Rightarrow>
                  let (r, s1) = invoke E (tidesdb_rename_column_family db oldCfName newCfName) s
                  in if result r \<noteq> TDB_SUCCESS K
                     then throwTidesDBException vm (result r) (getErrorMessage K (result r)) s1
                     else s1))"

subsection \<open>Column family\<close>

text \<open>
  The two loops of \<^verbatim>\<open>nativeGetStats\<close>,
  \<^verbatim>\<open>for (int i = 0; i < n; i++) dst[i] = (cast)src[i];\<close>
  over a block \<open>dst\<close> of \<open>n\<close> elements. Reading past the end of \<open>src\<close> is undefined
  behaviour: \<open>None\<close>.
\<close>

function copy_loop :: "('a \<Rightarrow> 'b) \<Rightarrow> 'a list \<Rightarrow> int \<Rightarrow> int \<Rightarrow> 'b list \<Rightarrow> 'b list option" where
  "copy_loop cast src n i dst =
     (if i < n then
        (if i < 0 \<or> nat i \<ge> length src then None
         else copy_loop cast src n (i + 1) (dst[nat i := cast (src ! nat i)]))
      else Some dst)"
  by pat_completeness auto
termination
  by (relation "measure (\<lambda>(cast, src, n, i, dst). nat (n - i))") auto

declare copy_loop.simps [simp del]

text \<open>
  \<^verbatim>\<open>malloc(n * sizeof(T))\<close>: a block of \<open>n\<close> elements (none when \<open>n\<close> is not
  positive). The source does not check the result, and the model lets \<^verbatim>\<open>malloc\<close>
  succeed.
\<close>

definition malloc :: "int \<Rightarrow> ('a::zero) list" where
  "malloc n = replicate (nat n) 0"

definition nativeGetStats ::
  "tdb_header \<Rightarrow> jvm \<Rightarrow> engine \<Rightarrow> jlong \<Rightarrow> jni_state \<Rightarrow> jobject option \<times> jni_state" where
  "nativeGetStats K vm E handle s =
     (let cf = handle;
          (r, s1) = invoke E (tidesdb_get_stats cf) s
      in if result r \<noteq> TDB_SUCCESS K
         then (None, throwTidesDBException vm (result r) (getErrorMessage K (result r)) s1)
         else
           (case out_stats r of
              None \<Rightarrow> (None, s1\<lparr>undefined_behaviour := True\<rparr>)
            | Some stats \<Rightarrow>
                let (levelSizes, s2) = NewArray (num_levels stats) s1;
                    (levelSizes1, s3) =
                      (case level_sizes stats of
                         None \<Rightarrow> (levelSizes, s2)
                       | Some src \<Rightarrow>
                           (case copy_loop ucast src (num_levels stats) 0
                                   (malloc (num_levels stats)) of
                              None \<Rightarrow> (levelSizes, s2\<lparr>undefined_behaviour := True\<rparr>)
                            | Some sizes \<Rightarrow>
                                let (a, t) = SetArrayRegion levelSizes 0 (num_levels stats)
                                               sizes s2
                                in (a, free (Some (Longs sizes)) t)));
                    (levelNumSSTables, s4) = NewArray (num_levels stats) s3;
                    (levelNumSSTables1, s5) =
                      (case level_num_sstables stats of
                         None \<Rightarrow> (levelNumSSTables, s4)
                       | Some src \<Rightarrow>
                           (case copy_loop (\<lambda>x. x) src (num_levels stats) 0
                                   (malloc (num_levels stats)) of
                              None \<Rightarrow> (levelNumSSTables, s4\<lparr>undefined_behaviour := True\<rparr>)
                            | Some nums \<Rightarrow>
                                let (a, t) = SetArrayRegion levelNumSSTables 0
                                               (num_levels stats) nums s4
                                in (a, free (Some (Ints nums)) t)));
                    (statsClass, s6) = FindClass vm ''com/tidesdb/Stats'' s5;
                    (constructor, s7) =
                      GetMethodID vm statsClass ''<init>''
                        ''(IJ[J[ILcom/tidesdb/ColumnFamilyConfig;)V'' s6;
                    (statsObj, s8) =
                      NewObject statsClass constructor
                        (Stats (num_levels stats) (ucast (memtable_size stats)) levelSizes1
                           levelNumSSTables1 None)
                        s7
                in (statsObj, snd (invoke E (tidesdb_free_stats stats) s8))))"

definition nativeCompact :: "tdb_header \<Rightarrow> jvm \<Rightarrow> engine \<Rightarrow> jlong \<Rightarrow> jni_state \<Rightarrow> jni_state" where
  "nativeCompact K vm E handle s =
     (let cf = handle;
          (r, s1) = invoke E (tidesdb_compact cf) s
      in if result r \<noteq> TDB_SUCCESS K
         then throwTidesDBException vm (result r) (getErrorMessage K (result r)) s1
         else s1)"

definition nativeFlushMemtable ::
  "tdb_header \<Rightarrow> jvm \<Rightarrow> engine \<Rightarrow> jlong \<Rightarrow> jni_state \<Rightarrow> jni_state" where
  "nativeFlushMemtable K vm E handle s =
     (let cf = handle;
          (r, s1) = invoke E (tidesdb_flush_memtable cf) s
      in if result r \<noteq> TDB_SUCCESS K
         then throwTidesDBException vm (result r) (getErrorMessage K (result r)) s1
         else s1)"



text \<open>A structure with a designated initialiser: the fields it does not name are zero.\<close>

definition zero_column_family_config :: tidesdb_column_family_config_t where
  "zero_column_family_config =
     \<lparr>write_buffer_size = 0, level_size_ratio = 0, min_levels = 0, dividing_level_offset = 0,
      klog_value_threshold = 0, compression_algorithm = 0, enable_bloom_filter = 0,
      bloom_fpr = 0, enable_block_indexes = 0, index_sample_ratio = 0,
      block_index_prefix_len = 0, sync_mode = 0, sync_interval_us = 0, comparator_name = [],
      skip_list_max_level = 0, skip_list_probability = 0, default_isolation_level = 0,
      min_disk_space = 0, l1_file_count_trigger = 0, l0_queue_stall_threshold = 0\<rparr>"

definition nativeUpdateRuntimeConfig ::
  "tdb_header \<Rightarrow> jvm \<Rightarrow> engine \<Rightarrow> jlong \<Rightarrow> jlong \<Rightarrow> jint \<Rightarrow> jfloat \<Rightarrow> jdouble \<Rightarrow> jint \<Rightarrow> jint \<Rightarrow>
   jlong \<Rightarrow> jboolean \<Rightarrow> jni_state \<Rightarrow> jni_state" where
  "nativeUpdateRuntimeConfig K vm E handle writeBufferSize skipListMaxLevel
       skipListProbability bloomFPR indexSampleRatio syncMode syncIntervalUs persistToDisk s =
     (let cf = handle;
          config = zero_column_family_config
                     \<lparr>write_buffer_size := ucast writeBufferSize,
                      skip_list_max_level := skipListMaxLevel,
                      skip_list_probability := skipListProbability,
                      bloom_fpr := bloomFPR,
                      index_sample_ratio := indexSampleRatio,
                      sync_mode := syncMode,
                      sync_interval_us := ucast syncIntervalUs\<rparr>;
          (r, s1) = invoke E (tidesdb_cf_update_runtime_config cf config
                                (to_int_bool persistToDisk)) s
      in if result r \<noteq> TDB_SUCCESS K
         then throwTidesDBException vm (result r) (getErrorMessage K (result r)) s1
         else s1)"

subsection \<open>Transaction\<close>

text \<open>
  The engine gets the borrowed elements of the key and value arrays as \<^verbatim>\<open>uint8_t *\<close>.
  \<open>lent\<close> is the state after the engine call: what the engine wrote into the elements
  is in the Java array at once when the elements are a pointer into it.
\<close>

definition lent ::
  "jvm \<Rightarrow> jbyteArray \<Rightarrow> jbyte list \<Rightarrow> jbyte list option \<Rightarrow> jni_state \<Rightarrow> jbyte list \<times> jni_state"
  where
  "lent vm array elems w s = (written elems w, native_write vm array (written elems w) s)"

definition nativePut ::
  "tdb_header \<Rightarrow> jvm \<Rightarrow> engine \<Rightarrow> jlong \<Rightarrow> jlong \<Rightarrow> jbyteArray \<Rightarrow> jbyteArray \<Rightarrow> jlong \<Rightarrow>
   jni_state \<Rightarrow> jni_state" where
  "nativePut K vm E handle cfHandle key val ttl s =
     (let txn = handle;
          cf = cfHandle;
          keyLen = GetArrayLength s key;
          valueLen = GetArrayLength s val;
          keyBytes = GetByteArrayElements s key;
          valueBytes = GetByteArrayElements s val;
          (r, s1) = invoke E (tidesdb_txn_put txn cf keyBytes keyLen valueBytes valueLen
                                (ucast ttl)) s;
          (keyBytes1, s2) = lent vm key keyBytes (key_written r) s1;
          (valueBytes1, s3) = lent vm val valueBytes (value_written r) s2;
          s4 = ReleaseByteArrayElements vm key keyBytes1 JNI_ABORT s3;
          s5 = ReleaseByteArrayElements vm val valueBytes1 JNI_ABORT s4
      in if result r \<noteq> TDB_SUCCESS K
         then throwTidesDBException vm (result r) (getErrorMessage K (result r)) s5
         else s5)"

definition nativeGet ::
  "tdb_header \<Rightarrow> jvm \<Rightarrow> engine \<Rightarrow> jlong \<Rightarrow> jlong \<Rightarrow> jbyteArray \<Rightarrow> jni_state \<Rightarrow>
   jbyteArray option \<times> jni_state" where
  "nativeGet K vm E handle cfHandle key s =
     (let txn = handle;
          cf = cfHandle;
          keyLen = GetArrayLength s key;
          keyBytes = GetByteArrayElements s key;
          (r, s1) = invoke E (tidesdb_txn_get txn cf keyBytes keyLen) s;
          val = out_bytes r;
          valueLen = out_size r;
          (keyBytes1, s2) = lent vm key keyBytes (key_written r) s1;
          s3 = ReleaseByteArrayElements vm key keyBytes1 JNI_ABORT s2
      in if result r \<noteq> TDB_SUCCESS K
         then (None, throwTidesDBException vm (result r) (getErrorMessage K (result r)) s3)
         else
           let (resultArray, s4) = NewByteArray (to_jsize valueLen) s3;
               s5 = SetByteArrayRegion resultArray 0 (to_jsize valueLen) val s4
           in (resultArray, free (map_option Bytes val) s5))"

definition nativeDelete ::
  "tdb_header \<Rightarrow> jvm \<Rightarrow> engine \<Rightarrow> jlong \<Rightarrow> jlong \<Rightarrow> jbyteArray \<Rightarrow> jni_state \<Rightarrow> jni_state" where
  "nativeDelete K vm E handle cfHandle key s =
     (let txn = handle;
          cf = cfHandle;
          keyLen = GetArrayLength s key;
          keyBytes = GetByteArrayElements s key;
          (r, s1) = invoke E (tidesdb_txn_delete txn cf keyBytes keyLen) s;
          (keyBytes1, s2) = lent vm key keyBytes (key_written r) s1;
          s3 = ReleaseByteArrayElements vm key keyBytes1 JNI_ABORT s2
      in if result r \<noteq> TDB_SUCCESS K
         then throwTidesDBException vm (result r) (getErrorMessage K (result r)) s3
         else s3)"

definition nativeCommit :: "tdb_header \<Rightarrow> jvm \<Rightarrow> engine \<Rightarrow> jlong \<Rightarrow> jni_state \<Rightarrow> jni_state" where
  "nativeCommit K vm E handle s =
     (let txn = handle;
          (r, s1) = invoke E (tidesdb_txn_commit txn) s
      in if result r \<noteq> TDB_SUCCESS K
         then throwTidesDBException vm (result r) (getErrorMessage K (result r)) s1
         else s1)"

definition nativeRollback :: "tdb_header \<Rightarrow> jvm \<Rightarrow> engine \<Rightarrow> jlong \<Rightarrow> jni_state \<Rightarrow> jni_state" where
  "nativeRollback K vm E handle s =
     (let txn = handle;
          (r, s1) = invoke E (tidesdb_txn_rollback txn) s
      in if result r \<noteq> TDB_SUCCESS K
         then throwTidesDBException vm (result r) (getErrorMessage K (result r)) s1
         else s1)"

definition nativeSavepoint ::
  "tdb_header \<Rightarrow> jvm \<Rightarrow> engine \<Rightarrow> jlong \<Rightarrow> jstring \<Rightarrow> jni_state \<Rightarrow> jni_state" where
  "nativeSavepoint K vm E handle name s =
     (let txn = handle;
          spName = GetStringUTFChars vm name;
          (r, s1) = invoke E (tidesdb_txn_savepoint txn spName) s
      in if result r \<noteq> TDB_SUCCESS K
         then throwTidesDBException vm (result r) (getErrorMessage K (result r)) s1
         else s1)"

definition nativeRollbackToSavepoint ::
  "tdb_header \<Rightarrow> jvm \<Rightarrow> engine \<Rightarrow> jlong \<Rightarrow> jstring \<Rightarrow> jni_state \<Rightarrow> jni_state" where
  "nativeRollbackToSavepoint K vm E handle name s =
     (let txn = handle;
          spName = GetStringUTFChars vm name;
          (r, s1) = invoke E (tidesdb_txn_rollback_to_savepoint txn spName) s
      in if result r \<noteq> TDB_SUCCESS K
         then throwTidesDBException vm (result r) (getErrorMessage K (result r)) s1
         else s1)"

definition nativeReleaseSavepoint ::
  "tdb_header \<Rightarrow> jvm \<Rightarrow> engine \<Rightarrow> jlong \<Rightarrow> jstring \<Rightarrow> jni_state \<Rightarrow> jni_state" where
  "nativeReleaseSavepoint K vm E handle name s =
     (let txn = handle;
          spName = GetStringUTFChars vm name;
          (r, s1) = invoke E (tidesdb_txn_release_savepoint txn spName) s
      in if result r \<noteq> TDB_SUCCESS K
         then throwTidesDBException vm (result r) (getErrorMessage K (result r)) s1
         else s1)"

definition nativeNewIterator ::
  "tdb_header \<Rightarrow> jvm \<Rightarrow> engine \<Rightarrow> jlong \<Rightarrow> jlong \<Rightarrow> jni_state \<Rightarrow> jlong \<times> jni_state" where
  "nativeNewIterator K vm E handle cfHandle s =
     (let txn = handle;
          cf = cfHandle;
          (r, s1) = invoke E (tidesdb_iter_new txn cf) s;
          iter = out_pointer r
      in if result r \<noteq> TDB_SUCCESS K
         then (0, throwTidesDBException vm (result r) (getErrorMessage K (result r)) s1)
         else (iter, s1))"

definition Transaction_nativeFree :: "engine \<Rightarrow> jlong \<Rightarrow> jni_state \<Rightarrow> jni_state" where
  "Transaction_nativeFree E handle s =
     (let txn = handle
      in if txn \<noteq> 0 then snd (invoke E (tidesdb_txn_free txn) s) else s)"

subsection \<open>Iterator\<close>

definition nativeSeekToFirst ::
  "tdb_header \<Rightarrow> jvm \<Rightarrow> engine \<Rightarrow> jlong \<Rightarrow> jni_state \<Rightarrow> jni_state" where
  "nativeSeekToFirst K vm E handle s =
     (let iter = handle;
          (r, s1) = invoke E (tidesdb_iter_seek_to_first iter) s
      in if result r \<noteq> TDB_SUCCESS K
         then throwTidesDBException vm (result r) (getErrorMessage K (result r)) s1
         else s1)"

definition nativeSeekToLast ::
  "tdb_header \<Rightarrow> jvm \<Rightarrow> engine \<Rightarrow> jlong \<Rightarrow> jni_state \<Rightarrow> jni_state" where
  "nativeSeekToLast K vm E handle s =
     (let iter = handle;
          (r, s1) = invoke E (tidesdb_iter_seek_to_last iter) s
      in if result r \<noteq> TDB_SUCCESS K
         then throwTidesDBException vm (result r) (getErrorMessage K (result r)) s1
         else s1)"

definition nativeSeek ::
  "tdb_header \<Rightarrow> jvm \<Rightarrow> engine \<Rightarrow> jlong \<Rightarrow> jbyteArray \<Rightarrow> jni_state \<Rightarrow> jni_state" where
  "nativeSeek K vm E handle key s =
     (let iter = handle;
          keyLen = GetArrayLength s key;
          keyBytes = GetByteArrayElements s key;
          (r, s1) = invoke E (tidesdb_iter_seek iter keyBytes keyLen) s;
          (keyBytes1, s2) = lent vm key keyBytes (key_written r) s1;
          s3 = ReleaseByteArrayElements vm key keyBytes1 JNI_ABORT s2
      in if result r \<noteq> TDB_SUCCESS K
         then throwTidesDBException vm (result r) (getErrorMessage K (result r)) s3
         else s3)"

definition nativeSeekForPrev ::
  "tdb_header \<Rightarrow> jvm \<Rightarrow> engine \<Rightarrow> jlong \<Rightarrow> jbyteArray \<Rightarrow> jni_state \<Rightarrow> jni_state" where
  "nativeSeekForPrev K vm E handle key s =
     (let iter = handle;
          keyLen = GetArrayLength s key;
          keyBytes = GetByteArrayElements s key;
          (r, s1) = invoke E (tidesdb_iter_seek_for_prev iter keyBytes keyLen) s;
          (keyBytes1, s2) = lent vm key keyBytes (key_written r) s1;
          s3 = ReleaseByteArrayElements vm key keyBytes1 JNI_ABORT s2
      in if result r \<noteq> TDB_SUCCESS K
         then throwTidesDBException vm (result r) (getErrorMessage K (result r)) s3
         else s3)"


definition nativeNext :: "tdb_header \<Rightarrow> jvm \<Rightarrow> engine \<Rightarrow> jlong \<Rightarrow> jni_state \<Rightarrow> jni_state" where
  "nativeNext K vm E handle s =
     (let iter = handle;
          (r, s1) = invoke E (tidesdb_iter_next iter) s
      in if result r \<noteq> TDB_SUCCESS K \<and> result r \<noteq> TDB_ERR_NOT_FOUND K
         then throwTidesDBException vm (result r) (getErrorMessage K (result r)) s1
         else s1)"

definition nativePrev :: "tdb_header \<Rightarrow> jvm \<Rightarrow> engine \<Rightarrow> jlong \<Rightarrow> jni_state \<Rightarrow> jni_state" where
  "nativePrev K vm E handle s =
     (let iter = handle;
          (r, s1) = invoke E (tidesdb_iter_prev iter) s
      in if result r \<noteq> TDB_SUCCESS K \<and> result r \<noteq> TDB_ERR_NOT_FOUND K
         then throwTidesDBException vm (result r) (getErrorMessage K (result r)) s1
         else s1)"

definition nativeKey ::
  "tdb_header \<Rightarrow> jvm \<Rightarrow> engine \<Rightarrow> jlong \<Rightarrow> jni_state \<Rightarrow> jbyteArray option \<times> jni_state" where
  "nativeKey K vm E handle s =
     (let iter = handle;
          (r, s1) = invoke E (tidesdb_iter_key iter) s;
          key = out_bytes r;
          keyLen = out_size r
      in if result r \<noteq> TDB_SUCCESS K
         then (None, throwTidesDBException vm (result r) (getErrorMessage K (result r)) s1)
         else
           let (resultArray, s2) = NewByteArray (to_jsize keyLen) s1
           in (resultArray, SetByteArrayRegion resultArray 0 (to_jsize keyLen) key s2))"

definition nativeValue ::
  "tdb_header \<Rightarrow> jvm \<Rightarrow> engine \<Rightarrow> jlong \<Rightarrow> jni_state \<Rightarrow> jbyteArray option \<times> jni_state" where
  "nativeValue K vm E handle s =
     (let iter = handle;
          (r, s1) = invoke E (tidesdb_iter_value iter) s;
          val = out_bytes r;
          valueLen = out_size r
      in if result r \<noteq> TDB_SUCCESS K
         then (None, throwTidesDBException vm (result r) (getErrorMessage K (result r)) s1)
         else
           let (resultArray, s2) = NewByteArray (to_jsize valueLen) s1
           in (resultArray, SetByteArrayRegion resultArray 0 (to_jsize valueLen) val s2))"

definition Iterator_nativeFree :: "engine \<Rightarrow> jlong \<Rightarrow> jni_state \<Rightarrow> jni_state" where
  "Iterator_nativeFree E handle s =
     (let iter = handle
      in if iter \<noteq> 0 then snd (invoke E (tidesdb_iter_free iter) s) else s)"

subsection \<open>The vocabulary of the properties\<close>

text \<open>
  The exception \<^verbatim>\<open>throwTidesDBException\<close> means to throw:
  \<^verbatim>\<open>new TidesDBException(message, errorCode)\<close>.
\<close>

definition TidesDBException :: "string \<Rightarrow> int \<Rightarrow> jthrowable" where
  "TidesDBException message errorCode =
     \<lparr>ex_class = ''com/tidesdb/TidesDBException'', ex_message = message,
      ex_code = Some errorCode\<rparr>"

text \<open>
  The virtual machine resolves a class and its constructor of a given signature; for
  \<^verbatim>\<open>com/tidesdb/TidesDBException\<close>, the constructor of a message and a code.
\<close>

definition constructible :: "jvm \<Rightarrow> string \<Rightarrow> string \<Rightarrow> bool" where
  "constructible vm cls sig =
     (case map_of (classes vm) cls of None \<Rightarrow> False | Some sigs \<Rightarrow> sig \<in> set sigs)"

definition exception_constructible :: "jvm \<Rightarrow> bool" where
  "exception_constructible vm =
     constructible vm ''com/tidesdb/TidesDBException'' ''(Ljava/lang/String;I)V''"

text \<open>
  \<open>code_checked K vm E s s'\<close>: \<open>s'\<close> is the state in which one of the binding's
  functions returns when it is called in \<open>s\<close>, for the functions that have the test
  \<^verbatim>\<open>if (result != TDB_SUCCESS)\<close> on the \<^verbatim>\<open>int\<close> of their engine call. Of the 38 functions
  of the file these are 29. The others are \<^verbatim>\<open>nativeNext\<close> and \<^verbatim>\<open>nativePrev\<close>, whose test
  also lets \<^verbatim>\<open>TDB_ERR_NOT_FOUND\<close> pass; \<^verbatim>\<open>nativeGetColumnFamily\<close>, which assigns what its
  engine call returns to a pointer and tests that against \<^verbatim>\<open>NULL\<close>; and six functions
  that have no test of what their engine call returns: \<^verbatim>\<open>nativeClose\<close>, the two
  \<^verbatim>\<open>nativeFree\<close>, \<^verbatim>\<open>nativeIsFlushing\<close>, \<^verbatim>\<open>nativeIsCompacting\<close> and \<^verbatim>\<open>nativeValid\<close>.
\<close>

inductive code_checked :: "tdb_header \<Rightarrow> jvm \<Rightarrow> engine \<Rightarrow> jni_state \<Rightarrow> jni_state \<Rightarrow> bool"
  for K :: tdb_header and vm :: jvm and E :: engine and s :: jni_state where
    Open: "code_checked K vm E s
             (snd (nativeOpen K vm E dbPath numFlushThreads numCompactionThreads logLevel
                     blockCacheSize maxOpenSSTables s))"
  | CreateColumnFamily:
      "code_checked K vm E s
         (nativeCreateColumnFamily K vm E handle name writeBufferSize levelSizeRatio minLevels
            dividingLevelOffset klogValueThreshold compressionAlgorithm enableBloomFilter
            bloomFPR enableBlockIndexes indexSampleRatio blockIndexPrefixLen syncMode
            syncIntervalUs comparatorName skipListMaxLevel skipListProbability
            defaultIsolationLevel minDiskSpace l1FileCountTrigger l0QueueStallThreshold s)"
  | DropColumnFamily: "code_checked K vm E s (nativeDropColumnFamily K vm E handle name s)"
  | ListColumnFamilies: "code_checked K vm E s (snd (nativeListColumnFamilies K vm E handle s))"
  | BeginTransaction: "code_checked K vm E s (snd (nativeBeginTransaction K vm E handle s))"
  | BeginTransactionWithIsolation:
      "code_checked K vm E s
         (snd (nativeBeginTransactionWithIsolation K vm E handle isolationLevel s))"
  | GetCacheStats: "code_checked K vm E s (snd (nativeGetCacheStats K vm E handle s))"
  | RegisterComparator:
      "code_checked K vm E s (nativeRegisterComparator K vm E handle name context s)"
  | Backup: "code_checked K vm E s (nativeBackup K vm E handle dir s)"
  | RenameColumnFamily:
      "code_checked K vm E s (nativeRenameColumnFamily K vm E handle oldName newName s)"
  | GetStats: "code_checked K vm E s (snd (nativeGetStats K vm E handle s))"
  | Compact: "code_checked K vm E s (nativeCompact K vm E handle s)"
  | FlushMemtable: "code_checked K vm E s (nativeFlushMemtable K vm E handle s)"
  | UpdateRuntimeConfig:
      "code_checked K vm E s
         (nativeUpdateRuntimeConfig K vm E handle writeBufferSize skipListMaxLevel
            skipListProbability bloomFPR indexSampleRatio syncMode syncIntervalUs
            persistToDisk s)"
  | Put: "code_checked K vm E s (nativePut K vm E handle cfHandle key val ttl s)"
  | Get: "code_checked K vm E s (snd (nativeGet K vm E handle cfHandle key s))"
  | Delete: "code_checked K vm E s (nativeDelete K vm E handle cfHandle key s)"
  | Commit: "code_checked K vm E s (nativeCommit K vm E handle s)"
  | Rollback: "code_checked K vm E s (nativeRollback K vm E handle s)"
  | Savepoint: "code_checked K vm E s (nativeSavepoint K vm E handle name s)"
  | RollbackToSavepoint:
      "code_checked K vm E s (nativeRollbackToSavepoint K vm E handle name s)"
  | ReleaseSavepoint: "code_checked K vm E s (nativeReleaseSavepoint K vm E handle name s)"
  | NewIterator: "code_checked K vm E s (snd (nativeNewIterator K vm E handle cfHandle s))"
  | SeekToFirst: "code_checked K vm E s (nativeSeekToFirst K vm E handle s)"
  | SeekToLast: "code_checked K vm E s (nativeSeekToLast K vm E handle s)"
  | Seek: "code_checked K vm E s (nativeSeek K vm E handle key s)"
  | SeekForPrev: "code_checked K vm E s (nativeSeekForPrev K vm E handle key s)"
  | Key: "code_checked K vm E s (snd (nativeKey K vm E handle s))"
  | Value: "code_checked K vm E s (snd (nativeValue K vm E handle s))"

text \<open>An exception is pending, and it carries no error code.\<close>

definition carries_no_code :: "jni_state \<Rightarrow> bool" where
  "carries_no_code s = (case pending s of None \<Rightarrow> False | Some e \<Rightarrow> ex_code e = None)"

text \<open>
  \<open>thrown vm errorCode message s'\<close>: the state \<open>s'\<close> is one that \<^verbatim>\<open>throwTidesDBException\<close>
  leaves when it is called with this code and this message.
\<close>

definition thrown :: "jvm \<Rightarrow> int \<Rightarrow> string \<Rightarrow> jni_state \<Rightarrow> bool" where
  "thrown vm errorCode message s' =
     (\<exists>s. s' = throwTidesDBException vm errorCode message s)"


text \<open>
  The configuration the interface of \<^verbatim>\<open>open\<close> describes: its six parameters, each in
  the field of its name.
\<close>

definition open_config ::
  "string \<Rightarrow> jint \<Rightarrow> jint \<Rightarrow> jint \<Rightarrow> jlong \<Rightarrow> jlong \<Rightarrow> tidesdb_config_t" where
  "open_config path numFlushThreads numCompactionThreads logLevel blockCacheSize
       maxOpenSSTables =
     \<lparr>db_path = path, num_flush_threads = numFlushThreads,
      num_compaction_threads = numCompactionThreads, log_level = logLevel,
      block_cache_size = blockCacheSize, max_open_sstables = maxOpenSSTables\<rparr>"

text \<open>
  The statistics object the interface describes: the seven fields of the engine's
  structure, \<^verbatim>\<open>enabled\<close> as a truth value.
\<close>

definition to_CacheStats :: "tidesdb_cache_stats_t \<Rightarrow> jobject" where
  "to_CacheStats stats =
     CacheStats (enabled stats \<noteq> 0) (total_entries stats) (total_bytes stats) (hits stats)
       (misses stats) (hit_rate stats) (num_partitions stats)"

text \<open>
  Statistics the engine may hand out: a level count that is not negative, and arrays
  (where it gives them) that have an element for every level.
\<close>

definition well_formed_stats :: "tidesdb_stats_t \<Rightarrow> bool" where
  "well_formed_stats stats =
     (0 \<le> num_levels stats \<and>
      (case level_sizes stats of None \<Rightarrow> True | Some xs \<Rightarrow> nat (num_levels stats) \<le> length xs) \<and>
      (case level_num_sstables stats of
         None \<Rightarrow> True
       | Some xs \<Rightarrow> nat (num_levels stats) \<le> length xs))"

text \<open>
  The Java array that stands for an engine array of \<open>n\<close> levels: its first \<open>n\<close>
  elements, or \<open>n\<close> zeros where the engine gave no array.
\<close>

definition java_array :: "int \<Rightarrow> ('a::zero) list option \<Rightarrow> 'a list" where
  "java_array n src = (case src of None \<Rightarrow> replicate (nat n) 0 | Some xs \<Rightarrow> take (nat n) xs)"

text \<open>The ordering function that an engine call registers, if it registers one.\<close>

definition registered_function :: "engine_call \<Rightarrow> tidesdb_comparator_fn option" where
  "registered_function c =
     (case c of tidesdb_register_comparator db name fn ctx_str ctx \<Rightarrow> fn | _ \<Rightarrow> None)"

text \<open>An engine that writes nothing into the buffers it is lent.\<close>

definition read_only :: "engine \<Rightarrow> bool" where
  "read_only E = (\<forall>c. key_written (E c) = None \<and> value_written (E c) = None)"

text \<open>
  The state of a call that lent the elements of its key array to the engine call \<open>c\<close>,
  after it has released them.
\<close>

definition after_key_release ::
  "jvm \<Rightarrow> engine_reply \<Rightarrow> engine_call \<Rightarrow> jbyteArray \<Rightarrow> jni_state \<Rightarrow> jni_state" where
  "after_key_release vm r c key s =
     ReleaseByteArrayElements vm key
       (fst (lent vm key (GetByteArrayElements s key) (key_written r)
               (s\<lparr>calls := calls s @ [c]\<rparr>)))
       JNI_ABORT
       (snd (lent vm key (GetByteArrayElements s key) (key_written r)
               (s\<lparr>calls := calls s @ [c]\<rparr>)))"

text \<open>
  The Java arrays as an engine call leaves them, when it was lent the elements of each
  array of \<open>ws\<close> and wrote into them what \<open>ws\<close> gives for that array.
\<close>

definition as_engine_left ::
  "jvm \<Rightarrow> jni_state \<Rightarrow> (jbyteArray \<times> jbyte list option) list \<Rightarrow> jbyte list list" where
  "as_engine_left vm s ws =
     heap (fold (\<lambda>(array, w) t. snd (lent vm array (GetByteArrayElements s array) w t)) ws s)"

subsection \<open>A configuration to run the model on\<close>

text \<open>
  A virtual machine that has loaded the binding's Java classes and hands out copies of
  array elements, an engine reply that carries a code and nothing else, and the state of
  a thread with no exception pending and no arrays.
\<close>

definition deployed_vm :: jvm where
  "deployed_vm =
     \<lparr>classes =
        [(''com/tidesdb/TidesDBException'',
            [''(Ljava/lang/String;I)V'', ''(Ljava/lang/String;)V'']),
         (''com/tidesdb/CacheStats'', [''(ZJJJJDJ)V'']),
         (''com/tidesdb/Stats'', [''(IJ[J[ILcom/tidesdb/ColumnFamilyConfig;)V'']),
         (''java/lang/String'', [])],
      utf_chars_available = True, elements_copied = True,
      throw_replaces_pending = True\<rparr>"

definition no_cache_stats :: tidesdb_cache_stats_t where
  "no_cache_stats = \<lparr>enabled = 0, total_entries = 0, total_bytes = 0, hits = 0, misses = 0,
                     hit_rate = 0, num_partitions = 0\<rparr>"

definition reply :: "int \<Rightarrow> engine_reply" where
  "reply code =
     \<lparr>result = code, out_pointer = 0, out_names = [], out_count = 0,
      out_cache_stats = no_cache_stats, out_stats = None, out_bytes = None, out_size = 0,
      key_written = None, value_written = None\<rparr>"

definition fresh_state :: jni_state where
  "fresh_state = \<lparr>pending = None, heap = [], calls = [], freed = [],
                   undefined_behaviour = False\<rparr>"

text \<open>
  Replies that carry statistics or a value, states that hold the caller's arrays, and an
  engine that fails and overwrites the buffers it was lent.
\<close>

definition some_cache_stats :: tidesdb_cache_stats_t where
  "some_cache_stats =
     \<lparr>enabled = 1, total_entries = 12, total_bytes = 49152, hits = 30, misses = 10,
      hit_rate = 0x3FE8000000000000, num_partitions = 4\<rparr>"

definition two_levels :: tidesdb_stats_t where
  "two_levels = \<lparr>num_levels = 2, memtable_size = 4096, level_sizes = Some [100, 200, 999],
                 level_num_sstables = Some [3, 1]\<rparr>"

definition one_key_state :: jni_state where
  "one_key_state = fresh_state\<lparr>heap := [[107, 49]]\<rparr>"

definition value_reply :: "jbyte list \<Rightarrow> engine_reply" where
  "value_reply v = (reply 0)\<lparr>out_bytes := Some v, out_size := of_nat (length v)\<rparr>"

definition two_arrays_state :: jni_state where
  "two_arrays_state = fresh_state\<lparr>heap := [[107, 49], [118]]\<rparr>"

definition scribbling :: engine where
  "scribbling = (\<lambda>c. (reply (- 4))\<lparr>key_written := Some [0, 0], value_written := Some [0]\<rparr>)"


section \<open>Properties\<close>

subsection \<open>The message table\<close>

lemma distinct_error_messages: "distinct error_messages"
  by (simp add: error_messages_def)

lemma unknown_not_listed: "''unknown error'' \<notin> set error_messages"
  by (simp add: error_messages_def)

lemma getErrorMessage_other:
  "code \<notin> set (error_codes K) \<Longrightarrow> getErrorMessage K code = ''unknown error''"
  by (simp add: error_codes_def getErrorMessage_def)

lemma getErrorMessage_listed:
  assumes "distinct (error_codes K)"
  shows "map (getErrorMessage K) (error_codes K) = error_messages"
proof -
  from assms have "distinct (rev (error_codes K))"
    by simp
  then have
    "getErrorMessage K (TDB_ERR_MEMORY K) = ''memory allocation failed''"
    "getErrorMessage K (TDB_ERR_INVALID_ARGS K) = ''invalid arguments''"
    "getErrorMessage K (TDB_ERR_NOT_FOUND K) = ''not found''"
    "getErrorMessage K (TDB_ERR_IO K) = ''I/O error''"
    "getErrorMessage K (TDB_ERR_CORRUPTION K) = ''data corruption''"
    "getErrorMessage K (TDB_ERR_EXISTS K) = ''already exists''"
    "getErrorMessage K (TDB_ERR_CONFLICT K) = ''transaction conflict''"
    "getErrorMessage K (TDB_ERR_TOO_LARGE K) = ''key or value too large''"
    "getErrorMessage K (TDB_ERR_MEMORY_LIMIT K) = ''memory limit exceeded''"
    "getErrorMessage K (TDB_ERR_INVALID_DB K) = ''invalid database handle''"
    "getErrorMessage K (TDB_ERR_LOCKED K) = ''database is locked''"
    unfolding error_codes_def getErrorMessage_def by simp_all
  then show ?thesis
    unfolding error_codes_def error_messages_def by simp
qed

text \<open>
  Claim C8. \<^verbatim>\<open>getErrorMessage\<close> is a total function on the integer codes. On the eleven
  error codes of the header (pairwise distinct, as the labels of a switch are) it gives,
  kind by kind, the eleven messages of the table, which are pairwise distinct and none
  of which is "unknown error"; on every other code it gives "unknown error".
\<close>

theorem getErrorMessage_table:
  "distinct (error_codes K) \<Longrightarrow>
     map (getErrorMessage K) (error_codes K) = error_messages \<and>
     distinct error_messages \<and>
     ''unknown error'' \<notin> set error_messages \<and>
     (\<forall>code. code \<notin> set (error_codes K) \<longrightarrow> getErrorMessage K code = ''unknown error'')"
  using getErrorMessage_listed distinct_error_messages unknown_not_listed getErrorMessage_other
  by blast

theorem getErrorMessage_table_witness:
  "distinct (error_codes db_h) \<and>
   map (getErrorMessage db_h) (error_codes db_h) = error_messages \<and>
   getErrorMessage db_h (- 11) = ''unknown error'' \<and>
   getErrorMessage db_h 0 = ''unknown error''"
proof -
  have d: "distinct (error_codes db_h)"
    by (simp add: error_codes_def db_h_def)
  have "(- 11) \<notin> set (error_codes db_h)" "0 \<notin> set (error_codes db_h)"
    by (simp_all add: error_codes_def db_h_def)
  with d getErrorMessage_table [OF d] show ?thesis
    by blast
qed

subsection \<open>What throwTidesDBException leaves pending\<close>

lemma throw_constructible:
  "exception_constructible vm \<Longrightarrow>
     throwTidesDBException vm c m s = s\<lparr>pending := Some (TidesDBException m c)\<rparr>"
  by (auto simp: exception_constructible_def constructible_def throwTidesDBException_def
      FindClass_def GetMethodID_def Throw_def TidesDBException_def split: option.splits)

lemma throw_pending: "pending (throwTidesDBException vm c m s) \<noteq> None"
  by (auto simp: throwTidesDBException_def FindClass_def GetMethodID_def Throw_def
      ThrowNew_def Let_def split: option.splits)

lemma throw_frame:
  "heap (throwTidesDBException vm c m s) = heap s"
  "calls (throwTidesDBException vm c m s) = calls s"
  "freed (throwTidesDBException vm c m s) = freed s"
  by (auto simp: throwTidesDBException_def FindClass_def GetMethodID_def Throw_def
      ThrowNew_def Let_def split: option.splits)

text \<open>
  Where the class or the constructor does not resolve, the error code never reaches the
  virtual machine: whatever is pending after \<^verbatim>\<open>throwTidesDBException\<close> carries none.
\<close>

lemma throw_no_code:
  "\<not> exception_constructible vm \<Longrightarrow> carries_no_code (throwTidesDBException vm c m s)"
  by (auto simp: exception_constructible_def constructible_def carries_no_code_def
      throwTidesDBException_def FindClass_def GetMethodID_def ThrowNew_def Let_def
      split: option.splits)


subsection \<open>The JNI functions leave the engine's trace alone\<close>

lemma free_frame [simp]:
  "calls (free p s) = calls s" "pending (free p s) = pending s" "heap (free p s) = heap s"
  by (simp_all add: free_def split: option.splits)

lemma lent_frame [simp]:
  "calls (snd (lent vm a e w s)) = calls s" "pending (snd (lent vm a e w s)) = pending s"
  by (simp_all add: lent_def native_write_def)

lemma Release_frame [simp]:
  "calls (ReleaseByteArrayElements vm a e m s) = calls s"
  "pending (ReleaseByteArrayElements vm a e m s) = pending s"
  by (simp_all add: ReleaseByteArrayElements_def)

lemma NewByteArray_calls [simp]: "calls (snd (NewByteArray n s)) = calls s"
  by (simp add: NewByteArray_def)

lemma SetByteArrayRegion_calls [simp]: "calls (SetByteArrayRegion a st n b s) = calls s"
  by (simp add: SetByteArrayRegion_def split: option.splits)

lemma FindClass_calls [simp]: "calls (snd (FindClass vm n s)) = calls s"
  by (simp add: FindClass_def split: option.splits)

lemma GetMethodID_calls [simp]: "calls (snd (GetMethodID vm c n sg s)) = calls s"
  by (simp add: GetMethodID_def split: option.splits)

lemma NewObject_calls [simp]: "calls (snd (NewObject c m obj s)) = calls s"
  by (simp add: NewObject_def split: option.splits)

lemma NewArray_calls [simp]: "calls (snd (NewArray n s)) = calls s"
  by (simp add: NewArray_def)

lemma SetArrayRegion_calls [simp]: "calls (snd (SetArrayRegion a st n b s)) = calls s"
  by (simp add: SetArrayRegion_def split: option.splits)

lemma NewObjectArray_calls [simp]: "calls (snd (NewObjectArray n c s)) = calls s"
  by (simp add: NewObjectArray_def split: option.splits)

lemma list_names_loop_calls [simp]:
  "calls (snd (list_names_loop names count i array s)) = calls s"
proof (induction names count i array s rule: list_names_loop.induct)
  case (1 names count i array s)
  show ?case
  proof (cases "i < count \<and> \<not> (i < 0 \<or> nat i \<ge> length names)")
    case True
    then show ?thesis
      using "1.IH" by (subst list_names_loop.simps) (auto split: option.splits)
  next
    case False
    then show ?thesis
      by (subst list_names_loop.simps) auto
  qed
qed

lemma throw_calls [simp]: "calls (throwTidesDBException vm c m s) = calls s"
  by (rule throw_frame)

subsection \<open>Engine errors become exceptions\<close>

lemma thrown_throw [simp]: "thrown vm c m (throwTidesDBException vm c m s)"
  unfolding thrown_def by blast



































lemma deployed_constructible: "exception_constructible deployed_vm"
  by (simp add: exception_constructible_def constructible_def deployed_vm_def)



subsection \<open>The end of an iteration is not an error\<close>

text \<open>
  Claim C2. For every call of \<^verbatim>\<open>nativeNext\<close> or \<^verbatim>\<open>nativePrev\<close>: if the engine returns
  \<^verbatim>\<open>TDB_ERR_NOT_FOUND\<close>, the binding returns in the state it was called in, but for the
  engine call it made, so it raises nothing; if the engine returns any other code that
  is not success, an exception is pending on return (the one of that code and its
  message, where the virtual machine can build it).
\<close>

theorem next_prev_not_found_is_no_error:
  "(result (E (tidesdb_iter_next h)) = TDB_ERR_NOT_FOUND K \<longrightarrow>
      nativeNext K vm E h s = s\<lparr>calls := calls s @ [tidesdb_iter_next h]\<rparr>) \<and>
   (result (E (tidesdb_iter_prev h)) = TDB_ERR_NOT_FOUND K \<longrightarrow>
      nativePrev K vm E h s = s\<lparr>calls := calls s @ [tidesdb_iter_prev h]\<rparr>) \<and>
   (result (E (tidesdb_iter_next h)) \<noteq> TDB_SUCCESS K \<and>
    result (E (tidesdb_iter_next h)) \<noteq> TDB_ERR_NOT_FOUND K \<longrightarrow>
      pending (nativeNext K vm E h s) \<noteq> None \<and>
      (exception_constructible vm \<longrightarrow>
         pending (nativeNext K vm E h s) =
           Some (TidesDBException (getErrorMessage K (result (E (tidesdb_iter_next h))))
                   (result (E (tidesdb_iter_next h)))))) \<and>
   (result (E (tidesdb_iter_prev h)) \<noteq> TDB_SUCCESS K \<and>
    result (E (tidesdb_iter_prev h)) \<noteq> TDB_ERR_NOT_FOUND K \<longrightarrow>
      pending (nativePrev K vm E h s) \<noteq> None \<and>
      (exception_constructible vm \<longrightarrow>
         pending (nativePrev K vm E h s) =
           Some (TidesDBException (getErrorMessage K (result (E (tidesdb_iter_prev h))))
                   (result (E (tidesdb_iter_prev h))))))"
  by (simp add: nativeNext_def nativePrev_def invoke_def Let_def throw_pending
      throw_constructible)

theorem next_prev_not_found_is_no_error_witness:
  "nativeNext db_h deployed_vm (\<lambda>c. reply (- 3)) 9 fresh_state =
     fresh_state\<lparr>calls := [tidesdb_iter_next 9]\<rparr> \<and>
   nativePrev db_h deployed_vm (\<lambda>c. reply (- 3)) 9 fresh_state =
     fresh_state\<lparr>calls := [tidesdb_iter_prev 9]\<rparr> \<and>
   pending (nativeNext db_h deployed_vm (\<lambda>c. reply (- 4)) 9 fresh_state) =
     Some (TidesDBException ''I/O error'' (- 4)) \<and>
   pending (nativePrev db_h deployed_vm (\<lambda>c. reply (- 5)) 9 fresh_state) =
     Some (TidesDBException ''data corruption'' (- 5))"
  using next_prev_not_found_is_no_error [of "\<lambda>c. reply (- 3)" 9 db_h deployed_vm fresh_state]
    next_prev_not_found_is_no_error [of "\<lambda>c. reply (- 4)" 9 db_h deployed_vm fresh_state]
    next_prev_not_found_is_no_error [of "\<lambda>c. reply (- 5)" 9 db_h deployed_vm fresh_state]
    deployed_constructible
  by (simp add: reply_def db_h_def getErrorMessage_def fresh_state_def)

subsection \<open>A null handle is never passed on\<close>

text \<open>
  Claim C9. Database close, transaction free and iterator free with the handle 0 return
  in the state they were called in: no engine function has been called and no exception
  has been raised.
\<close>

theorem null_handle_is_no_op:
  "nativeClose E 0 s = s \<and> Transaction_nativeFree E 0 s = s \<and> Iterator_nativeFree E 0 s = s"
  by (simp add: nativeClose_def Transaction_nativeFree_def Iterator_nativeFree_def)

lemma nonnull_handle_calls_engine:
  "handle \<noteq> 0 \<Longrightarrow>
     calls (nativeClose E handle s) = calls s @ [tidesdb_close handle] \<and>
     calls (Transaction_nativeFree E handle s) = calls s @ [tidesdb_txn_free handle] \<and>
     calls (Iterator_nativeFree E handle s) = calls s @ [tidesdb_iter_free handle]"
  by (simp add: nativeClose_def Transaction_nativeFree_def Iterator_nativeFree_def invoke_def)


subsection \<open>Cache statistics\<close>

lemma nativeGetCacheStats_object:
  assumes "fst (nativeGetCacheStats K vm E h s) = Some obj"
  shows "result (E (tidesdb_get_cache_stats h)) = TDB_SUCCESS K \<and>
         obj = to_CacheStats (out_cache_stats (E (tidesdb_get_cache_stats h)))"
  using assms
  by (auto simp: nativeGetCacheStats_def invoke_def Let_def split_beta NewObject_def
      to_CacheStats_def split: if_splits option.splits)

lemma nativeGetCacheStats_success:
  assumes "result (E (tidesdb_get_cache_stats h)) = TDB_SUCCESS K"
    and "constructible vm ''com/tidesdb/CacheStats'' ''(ZJJJJDJ)V''"
  shows "nativeGetCacheStats K vm E h s =
           (Some (to_CacheStats (out_cache_stats (E (tidesdb_get_cache_stats h)))),
            s\<lparr>calls := calls s @ [tidesdb_get_cache_stats h]\<rparr>)"
  using assms
  by (auto simp: nativeGetCacheStats_def invoke_def Let_def split_beta NewObject_def
      to_CacheStats_def constructible_def FindClass_def GetMethodID_def split: option.splits)

text \<open>
  Claim C6. Every call of \<^verbatim>\<open>nativeGetCacheStats\<close> that returns an object is one the engine
  answered with success, and the object has the seven fields of the engine's structure:
  \<^verbatim>\<open>enabled\<close> as the truth value of \<^verbatim>\<open>enabled != 0\<close>, the five counts cast to
  \<^verbatim>\<open>jlong\<close>, and \<^verbatim>\<open>hit_rate\<close> as it is. The call does return the object, and raises
  nothing, whenever the engine succeeds and the virtual machine resolves the class
  \<^verbatim>\<open>CacheStats\<close> and its constructor.
\<close>

theorem cache_stats_fields:
  "(fst (nativeGetCacheStats K vm E h s) = Some obj \<longrightarrow>
      result (E (tidesdb_get_cache_stats h)) = TDB_SUCCESS K \<and>
      obj = to_CacheStats (out_cache_stats (E (tidesdb_get_cache_stats h)))) \<and>
   (result (E (tidesdb_get_cache_stats h)) = TDB_SUCCESS K \<and>
    constructible vm ''com/tidesdb/CacheStats'' ''(ZJJJJDJ)V'' \<longrightarrow>
      nativeGetCacheStats K vm E h s =
        (Some (to_CacheStats (out_cache_stats (E (tidesdb_get_cache_stats h)))),
         s\<lparr>calls := calls s @ [tidesdb_get_cache_stats h]\<rparr>))"
proof (intro conjI impI)
  assume "fst (nativeGetCacheStats K vm E h s) = Some obj"
  then show "result (E (tidesdb_get_cache_stats h)) = TDB_SUCCESS K"
    and "obj = to_CacheStats (out_cache_stats (E (tidesdb_get_cache_stats h)))"
    by (simp_all add: nativeGetCacheStats_object)
next
  assume "result (E (tidesdb_get_cache_stats h)) = TDB_SUCCESS K \<and>
    constructible vm ''com/tidesdb/CacheStats'' ''(ZJJJJDJ)V''"
  then show "nativeGetCacheStats K vm E h s =
        (Some (to_CacheStats (out_cache_stats (E (tidesdb_get_cache_stats h)))),
         s\<lparr>calls := calls s @ [tidesdb_get_cache_stats h]\<rparr>)"
    by (simp add: nativeGetCacheStats_success)
qed

theorem cache_stats_fields_witness:
  "nativeGetCacheStats db_h deployed_vm (\<lambda>c. (reply 0)\<lparr>out_cache_stats := some_cache_stats\<rparr>)
     1 fresh_state =
     (Some (CacheStats True 12 49152 30 10 0x3FE8000000000000 4),
      fresh_state\<lparr>calls := [tidesdb_get_cache_stats 1]\<rparr>)"
proof -
  let ?E = "\<lambda>c :: engine_call. (reply 0)\<lparr>out_cache_stats := some_cache_stats\<rparr>"
  have 1: "result (?E (tidesdb_get_cache_stats 1)) = TDB_SUCCESS db_h"
    by (simp add: reply_def db_h_def)
  have 2: "constructible deployed_vm ''com/tidesdb/CacheStats'' ''(ZJJJJDJ)V''"
    by (simp add: constructible_def deployed_vm_def)
  have 3: "to_CacheStats (out_cache_stats (?E (tidesdb_get_cache_stats 1))) =
             CacheStats True 12 49152 30 10 0x3FE8000000000000 4"
    by (simp add: to_CacheStats_def some_cache_stats_def)
  have 4: "calls fresh_state = []"
    by (simp add: fresh_state_def)
  from cache_stats_fields [of db_h deployed_vm ?E 1 fresh_state "CacheStats True 12 49152 30 10 0x3FE8000000000000 4"] 1 2
  have "nativeGetCacheStats db_h deployed_vm ?E 1 fresh_state =
        (Some (to_CacheStats (out_cache_stats (?E (tidesdb_get_cache_stats 1)))),
         fresh_state\<lparr>calls := calls fresh_state @ [tidesdb_get_cache_stats 1]\<rparr>)"
    by blast
  then show ?thesis
    by (simp only: 3 4 append_Nil)
qed


subsection \<open>Registering a comparator\<close>

lemma GetStringUTFChars_null [simp]: "GetStringUTFChars vm None = None"
  by (simp add: GetStringUTFChars_def)

text \<open>
  Claim C4, as the code has it. For every call of \<^verbatim>\<open>nativeRegisterComparator\<close> whose
  name the virtual machine hands out, the binding makes one engine call,
  \<^verbatim>\<open>tidesdb_register_comparator\<close>, with the handle, the name, the context string (null
  when the context is null), and \<^verbatim>\<open>NULL\<close> both for the comparator function and for the
  context pointer: it passes the name and the context on and supplies no ordering
  function. It raises nothing when the engine succeeds and an exception when it fails.
\<close>

theorem register_comparator_forwards_name_and_context:
  assumes "GetStringUTFChars vm name = Some compName"
    and "c = tidesdb_register_comparator handle compName None
               (GetStringUTFChars vm jcontext) None"
  shows "calls (nativeRegisterComparator K vm E handle name jcontext s) = calls s @ [c] \<and>
         (result (E c) = TDB_SUCCESS K \<longrightarrow>
            pending (nativeRegisterComparator K vm E handle name jcontext s) = pending s) \<and>
         (result (E c) \<noteq> TDB_SUCCESS K \<longrightarrow>
            pending (nativeRegisterComparator K vm E handle name jcontext s) \<noteq> None \<and>
            (exception_constructible vm \<longrightarrow>
               pending (nativeRegisterComparator K vm E handle name jcontext s) =
                 Some (TidesDBException (getErrorMessage K (result (E c))) (result (E c)))))"
  using assms
  by (cases jcontext)
    (simp_all add: nativeRegisterComparator_def invoke_def Let_def throw_pending
      throw_constructible)

theorem register_comparator_forwards_name_and_context_witness:
  "calls (nativeRegisterComparator db_h deployed_vm (\<lambda>c. reply 0) 1 (Some ''reverse'')
            (Some ''descending'') fresh_state) =
     [tidesdb_register_comparator 1 ''reverse'' None (Some ''descending'') None] \<and>
   pending (nativeRegisterComparator db_h deployed_vm (\<lambda>c. reply 0) 1 (Some ''reverse'')
              (Some ''descending'') fresh_state) = None"
proof -
  have 1: "GetStringUTFChars deployed_vm (Some ''reverse'') = Some ''reverse''"
    by (simp add: GetStringUTFChars_def deployed_vm_def)
  have 2: "GetStringUTFChars deployed_vm (Some ''descending'') = Some ''descending''"
    by (simp add: GetStringUTFChars_def deployed_vm_def)
  have 3: "result (reply 0) = TDB_SUCCESS db_h"
    by (simp add: reply_def db_h_def)
  have 4: "calls fresh_state = []" "pending fresh_state = None"
    by (simp_all add: fresh_state_def)
  from register_comparator_forwards_name_and_context
         [OF 1 refl, where K = db_h and E = "\<lambda>c. reply 0" and handle = 1
          and jcontext = "Some ''descending''" and s = fresh_state]
  show ?thesis
    unfolding 2 using 3 4 by simp
qed

text \<open>
  The claim as written fails: what the binding registers under the name is no function.
  The third argument of the engine call, the comparator, is \<^verbatim>\<open>NULL\<close> whatever the name
  and the context are.
\<close>

theorem register_comparator_registers_no_function:
  "map registered_function
     (calls (nativeRegisterComparator db_h deployed_vm (\<lambda>c. reply 0) 1 (Some ''reverse'')
               (Some ''descending'') fresh_state)) = [None]"
  by (simp add: nativeRegisterComparator_def invoke_def Let_def GetStringUTFChars_def
      deployed_vm_def fresh_state_def reply_def db_h_def registered_function_def)


subsection \<open>Opening a database\<close>

text \<open>
  Claim C5, as the code has it. Take any call of \<^verbatim>\<open>nativeOpen\<close>. If the virtual machine
  hands out the path, the binding makes one engine call, \<^verbatim>\<open>tidesdb_open\<close>, with the
  configuration that holds the six parameters unchanged; when the engine succeeds it
  returns the engine's database pointer as the handle (not zero, unless the engine left
  the pointer \<^verbatim>\<open>NULL\<close>) and raises nothing; when the engine fails it returns 0 after
  \<^verbatim>\<open>throwTidesDBException\<close> with the engine's code and its message. If the virtual
  machine does not hand out the path, the binding makes no engine call and returns 0
  after \<^verbatim>\<open>throwTidesDBException\<close> with \<^verbatim>\<open>TDB_ERR_MEMORY\<close> and "Failed to get database
  path". In both cases what \<^verbatim>\<open>throwTidesDBException\<close> leaves pending is the exception of
  that code and message where the virtual machine resolves \<^verbatim>\<open>TidesDBException\<close> and its
  (String, int) constructor, and an exception without a code where it does not.
\<close>

theorem open_forwards_parameters:
  assumes "c = tidesdb_open (open_config path numFlushThreads numCompactionThreads logLevel
                               blockCacheSize maxOpenSSTables)"
    and "ret = nativeOpen K vm E dbPath numFlushThreads numCompactionThreads logLevel
                 blockCacheSize maxOpenSSTables s"
  shows "(GetStringUTFChars vm dbPath = Some path \<longrightarrow>
            calls (snd ret) = calls s @ [c] \<and>
            (result (E c) = TDB_SUCCESS K \<longrightarrow>
               ret = (out_pointer (E c), s\<lparr>calls := calls s @ [c]\<rparr>) \<and>
               (out_pointer (E c) \<noteq> 0 \<longrightarrow> fst ret \<noteq> 0)) \<and>
            (result (E c) \<noteq> TDB_SUCCESS K \<longrightarrow>
               fst ret = 0 \<and>
               snd ret = throwTidesDBException vm (result (E c))
                           (getErrorMessage K (result (E c))) (s\<lparr>calls := calls s @ [c]\<rparr>) \<and>
               pending (snd ret) \<noteq> None \<and>
               (exception_constructible vm \<longrightarrow>
                  pending (snd ret) =
                    Some (TidesDBException (getErrorMessage K (result (E c)))
                            (result (E c)))) \<and>
               (\<not> exception_constructible vm \<longrightarrow> carries_no_code (snd ret)))) \<and>
         (GetStringUTFChars vm dbPath = None \<longrightarrow>
            fst ret = 0 \<and>
            calls (snd ret) = calls s \<and>
            snd ret = throwTidesDBException vm (TDB_ERR_MEMORY K)
                        ''Failed to get database path'' s \<and>
            pending (snd ret) \<noteq> None \<and>
            (exception_constructible vm \<longrightarrow>
               pending (snd ret) =
                 Some (TidesDBException ''Failed to get database path'' (TDB_ERR_MEMORY K))) \<and>
            (\<not> exception_constructible vm \<longrightarrow> carries_no_code (snd ret)))"
  unfolding assms
  by (simp add: nativeOpen_def invoke_def Let_def open_config_def throw_pending
      throw_constructible throw_no_code)

theorem open_forwards_parameters_witness:
  "nativeOpen db_h deployed_vm (\<lambda>c. (reply 0)\<lparr>out_pointer := 4096\<rparr>) (Some ''/tmp/db'') 2 2 1
     67108864 256 fresh_state =
     (4096, fresh_state\<lparr>calls := [tidesdb_open (open_config ''/tmp/db'' 2 2 1 67108864 256)]\<rparr>)
   \<and>
   fst (nativeOpen db_h deployed_vm (\<lambda>c. reply (- 4)) (Some ''/tmp/db'') 2 2 1 67108864 256
          fresh_state) = 0 \<and>
   pending (snd (nativeOpen db_h deployed_vm (\<lambda>c. reply (- 4)) (Some ''/tmp/db'') 2 2 1
                   67108864 256 fresh_state)) =
     Some (TidesDBException ''I/O error'' (- 4)) \<and>
   fst (nativeOpen db_h (deployed_vm\<lparr>utf_chars_available := False\<rparr>) (\<lambda>c. reply 0)
          (Some ''/tmp/db'') 2 2 1 67108864 256 fresh_state) = 0 \<and>
   pending (snd (nativeOpen db_h (deployed_vm\<lparr>utf_chars_available := False\<rparr>) (\<lambda>c. reply 0)
                   (Some ''/tmp/db'') 2 2 1 67108864 256 fresh_state)) =
     Some (TidesDBException ''Failed to get database path'' (- 1))"
proof -
  let ?E = "\<lambda>c :: engine_call. (reply 0)\<lparr>out_pointer := 4096\<rparr>"
  let ?F = "\<lambda>c :: engine_call. reply (- 4)"
  let ?G = "\<lambda>c :: engine_call. reply 0"
  let ?c = "tidesdb_open (open_config ''/tmp/db'' 2 2 1 67108864 256)"
  let ?vm = "deployed_vm\<lparr>utf_chars_available := False\<rparr>"
  have 1: "GetStringUTFChars deployed_vm (Some ''/tmp/db'') = Some ''/tmp/db''"
    "GetStringUTFChars ?vm (Some ''/tmp/db'') = None"
    by (simp_all add: GetStringUTFChars_def deployed_vm_def)
  have 2: "result (?E ?c) = TDB_SUCCESS db_h" "out_pointer (?E ?c) = 4096"
    "result (?F ?c) \<noteq> TDB_SUCCESS db_h" "result (?F ?c) = - 4"
    "getErrorMessage db_h (- 4) = ''I/O error''" "TDB_ERR_MEMORY db_h = - 1"
    by (simp_all add: reply_def db_h_def getErrorMessage_def)
  have 3: "calls fresh_state = []"
    by (simp add: fresh_state_def)
  have 4: "exception_constructible deployed_vm" "exception_constructible ?vm"
    by (simp_all add: exception_constructible_def constructible_def deployed_vm_def)
  from open_forwards_parameters [OF refl refl, where K = db_h and E = ?E and vm = deployed_vm
         and dbPath = "Some ''/tmp/db''" and path = "''/tmp/db''" and numFlushThreads = 2
         and numCompactionThreads = 2 and logLevel = 1 and blockCacheSize = 67108864
         and maxOpenSSTables = 256 and s = fresh_state] 1(1) 2(1)
  have "nativeOpen db_h deployed_vm ?E (Some ''/tmp/db'') 2 2 1 67108864 256 fresh_state =
          (out_pointer (?E ?c), fresh_state\<lparr>calls := calls fresh_state @ [?c]\<rparr>)"
    by blast
  then have a: "nativeOpen db_h deployed_vm ?E (Some ''/tmp/db'') 2 2 1 67108864 256
                  fresh_state = (4096, fresh_state\<lparr>calls := calls fresh_state @ [?c]\<rparr>)"
    unfolding 2(2) .
  from open_forwards_parameters [OF refl refl, where K = db_h and E = ?F and vm = deployed_vm
         and dbPath = "Some ''/tmp/db''" and path = "''/tmp/db''" and numFlushThreads = 2
         and numCompactionThreads = 2 and logLevel = 1 and blockCacheSize = 67108864
         and maxOpenSSTables = 256 and s = fresh_state] 1(1) 2(3) 4(1)
  have b: "fst (nativeOpen db_h deployed_vm ?F (Some ''/tmp/db'') 2 2 1 67108864 256
                  fresh_state) = 0"
    "pending (snd (nativeOpen db_h deployed_vm ?F (Some ''/tmp/db'') 2 2 1 67108864 256
                     fresh_state)) =
       Some (TidesDBException (getErrorMessage db_h (result (?F ?c))) (result (?F ?c)))"
    by blast+
  from open_forwards_parameters [OF refl refl, where K = db_h and E = ?G and vm = ?vm
         and dbPath = "Some ''/tmp/db''" and path = "''/tmp/db''" and numFlushThreads = 2
         and numCompactionThreads = 2 and logLevel = 1 and blockCacheSize = 67108864
         and maxOpenSSTables = 256 and s = fresh_state] 1(2) 4(2)
  have c: "fst (nativeOpen db_h ?vm ?G (Some ''/tmp/db'') 2 2 1 67108864 256 fresh_state) = 0"
    "pending (snd (nativeOpen db_h ?vm ?G (Some ''/tmp/db'') 2 2 1 67108864 256
                     fresh_state)) =
       Some (TidesDBException ''Failed to get database path'' (TDB_ERR_MEMORY db_h))"
    by blast+
  from a b c show ?thesis
    unfolding 2(4,5,6) 3 by simp
qed

text \<open>
  The claim as written fails in three places. When \<^verbatim>\<open>GetStringUTFChars\<close> gives \<^verbatim>\<open>NULL\<close>
  the binding returns 0 with an exception and never calls the engine, so nothing is
  forwarded, although the engine would have succeeded. When the engine succeeds and
  leaves the database pointer \<^verbatim>\<open>NULL\<close>, the handle returned is 0. And when the engine
  fails while the exception class does not resolve, what is pending is the error of the
  class lookup, not the translated exception.
\<close>

theorem open_without_path_forwards_nothing:
  "nativeOpen db_h (deployed_vm\<lparr>utf_chars_available := False\<rparr>)
     (\<lambda>c. (reply 0)\<lparr>out_pointer := 4096\<rparr>) (Some ''/tmp/db'') 2 2 1 67108864 256 fresh_state =
     (0, fresh_state\<lparr>pending := Some (TidesDBException ''Failed to get database path'' (- 1))\<rparr>)
   \<and> calls (fresh_state\<lparr>pending :=
               Some (TidesDBException ''Failed to get database path'' (- 1))\<rparr>) = [] \<and>
   result (reply 0) = TDB_SUCCESS db_h \<and>
   nativeOpen db_h deployed_vm (\<lambda>c. reply 0) (Some ''/tmp/db'') 2 2 1 67108864 256 fresh_state =
     (0, fresh_state\<lparr>calls := [tidesdb_open (open_config ''/tmp/db'' 2 2 1 67108864 256)]\<rparr>) \<and>
   result (reply (- 4)) \<noteq> TDB_SUCCESS db_h \<and>
   pending (snd (nativeOpen db_h (deployed_vm\<lparr>classes := []\<rparr>) (\<lambda>c. reply (- 4))
                   (Some ''/tmp/db'') 2 2 1 67108864 256 fresh_state)) =
     Some \<lparr>ex_class = ''java/lang/NoClassDefFoundError'',
           ex_message = ''com/tidesdb/TidesDBException'', ex_code = None\<rparr>"
  by (simp add: nativeOpen_def GetStringUTFChars_def deployed_vm_def db_h_def fresh_state_def
      throwTidesDBException_def FindClass_def GetMethodID_def Throw_def TidesDBException_def
      invoke_def Let_def reply_def open_config_def no_cache_stats_def)

subsection \<open>Reading a value\<close>

lemma to_jsize_small:
  assumes "unat n < 2 ^ 31"
  shows "to_jsize n = int (unat n)"
proof -
  from assms have "int (unat n) < int (2 ^ 31)"
    by (rule iffD2 [OF of_nat_less_iff])
  then have u: "uint n < 2 ^ 31"
    by simp
  have "(- (2 ^ 31) :: int) \<le> 0"
    by simp
  then have l: "- (2 ^ 31) \<le> uint n"
    using uint_ge_0 [of n] by (rule order_trans)
  have "uint (ucast n :: 32 word) = take_bit 32 (uint n)"
    by (simp add: unsigned_ucast_eq)
  also have "\<dots> = uint n"
    using u by (simp add: take_bit_int_eq_self)
  finally have e: "uint (ucast n :: 32 word) = uint n" .
  have "sint (ucast n :: 32 word) = signed_take_bit 31 (uint (ucast n :: 32 word))"
    by (simp add: sint_uint)
  also have "\<dots> = uint n"
    unfolding e using u l by (simp add: signed_take_bit_int_eq_self)
  finally have "to_jsize n = uint n"
    by (simp add: to_jsize_def)
  then show ?thesis
    by simp
qed

lemma lent_length [simp]: "length (heap (snd (lent vm a e w s))) = length (heap s)"
  by (simp add: lent_def native_write_def)

lemma Release_length [simp]:
  "length (heap (ReleaseByteArrayElements vm a e m s)) = length (heap s)"
  by (simp add: ReleaseByteArrayElements_def)

lemma lent_other [simp]:
  "freed (snd (lent vm a e w s)) = freed s"
  "undefined_behaviour (snd (lent vm a e w s)) = undefined_behaviour s"
  by (simp_all add: lent_def native_write_def)

lemma Release_other [simp]:
  "freed (ReleaseByteArrayElements vm a e m s) = freed s"
  "undefined_behaviour (ReleaseByteArrayElements vm a e m s) = undefined_behaviour s"
  by (simp_all add: ReleaseByteArrayElements_def)

text \<open>The result array of a get, a key or a value: a new array that holds the bytes.\<close>

lemma new_array_holds_bytes:
  assumes "unat n = length v" and "length v < 2 ^ 31"
    and "NewByteArray (to_jsize n) s = (a, s1)"
    and "s2 = SetByteArrayRegion a 0 (to_jsize n) (Some v) s1"
  shows "a = Some (length (heap s)) \<and> heap s2 = heap s @ [v] \<and> pending s2 = pending s \<and>
         calls s2 = calls s \<and> freed s2 = freed s \<and>
         undefined_behaviour s2 = undefined_behaviour s"
proof -
  have n: "to_jsize n = int (length v)"
    using assms(1,2) to_jsize_small [of n] by simp
  from assms(3) have a: "a = Some (length (heap s))"
    and s1: "s1 = s\<lparr>heap := heap s @ [replicate (length v) 0]\<rparr>"
    by (simp_all add: NewByteArray_def n)
  show ?thesis
  proof (cases "v = []")
    case True
    then show ?thesis
      unfolding assms(4) a s1 by (simp add: SetByteArrayRegion_def n)
  next
    case False
    then have "\<not> int (length v) \<le> 0"
      by simp
    then show ?thesis
      unfolding assms(4) a s1 by (simp add: SetByteArrayRegion_def n)
  qed
qed


lemma after_key_release_frame [simp]:
  "length (heap (after_key_release vm r c key s)) = length (heap s)"
  "pending (after_key_release vm r c key s) = pending s"
  "calls (after_key_release vm r c key s) = calls s @ [c]"
  "freed (after_key_release vm r c key s) = freed s"
  "undefined_behaviour (after_key_release vm r c key s) = undefined_behaviour s"
  by (simp_all add: after_key_release_def)

lemma nativeGet_unfold:
  assumes "c = tidesdb_txn_get handle cfHandle (GetByteArrayElements s key)
                 (GetArrayLength s key)"
    and "s3 = after_key_release vm (E c) c key s"
  shows "nativeGet K vm E handle cfHandle key s =
           (if result (E c) \<noteq> TDB_SUCCESS K
            then (None, throwTidesDBException vm (result (E c))
                          (getErrorMessage K (result (E c))) s3)
            else (fst (NewByteArray (to_jsize (out_size (E c))) s3),
                  free (map_option Bytes (out_bytes (E c)))
                    (SetByteArrayRegion (fst (NewByteArray (to_jsize (out_size (E c))) s3)) 0
                       (to_jsize (out_size (E c))) (out_bytes (E c))
                       (snd (NewByteArray (to_jsize (out_size (E c))) s3)))))"
  unfolding assms
  by (simp add: nativeGet_def invoke_def Let_def split_beta after_key_release_def)

text \<open>
  Claim C3, as the code has it. For every transactional get: if the engine succeeds with
  a value of fewer than \<open>2^31\<close> bytes (the length it reports being the length of the
  buffer), the binding returns a new byte array, one that was not in the heap before,
  whose contents are exactly those bytes, frees the engine's buffer and raises nothing.
  If the engine reports \<^verbatim>\<open>TDB_ERR_NOT_FOUND\<close> or any other failure, the binding returns
  null, allocates and frees nothing, and leaves an exception pending: the one that
  carries the engine's code, where the virtual machine can build it.
\<close>

theorem get_returns_value_or_raises:
  assumes "c = tidesdb_txn_get handle cfHandle (GetByteArrayElements s key)
                 (GetArrayLength s key)"
    and "ret = nativeGet K vm E handle cfHandle key s"
  shows "(result (E c) = TDB_SUCCESS K \<and> out_bytes (E c) = Some v \<and>
          unat (out_size (E c)) = length v \<and> length v < 2 ^ 31 \<longrightarrow>
            fst ret = Some (length (heap s)) \<and>
            length (heap (snd ret)) = Suc (length (heap s)) \<and>
            heap (snd ret) ! length (heap s) = v \<and>
            freed (snd ret) = freed s @ [Bytes v] \<and>
            pending (snd ret) = pending s \<and>
            undefined_behaviour (snd ret) = undefined_behaviour s) \<and>
         (result (E c) \<noteq> TDB_SUCCESS K \<longrightarrow>
            fst ret = None \<and>
            length (heap (snd ret)) = length (heap s) \<and>
            freed (snd ret) = freed s \<and>
            pending (snd ret) \<noteq> None \<and>
            (exception_constructible vm \<longrightarrow>
               pending (snd ret) =
                 Some (TidesDBException (getErrorMessage K (result (E c))) (result (E c)))))"
proof (intro conjI impI)
  define s3 where "s3 = after_key_release vm (E c) c key s"
  have unfold: "nativeGet K vm E handle cfHandle key s =
           (if result (E c) \<noteq> TDB_SUCCESS K
            then (None, throwTidesDBException vm (result (E c))
                          (getErrorMessage K (result (E c))) s3)
            else (fst (NewByteArray (to_jsize (out_size (E c))) s3),
                  free (map_option Bytes (out_bytes (E c)))
                    (SetByteArrayRegion (fst (NewByteArray (to_jsize (out_size (E c))) s3)) 0
                       (to_jsize (out_size (E c))) (out_bytes (E c))
                       (snd (NewByteArray (to_jsize (out_size (E c))) s3)))))"
    using assms(1) s3_def by (rule nativeGet_unfold)
  {
    assume ok: "result (E c) = TDB_SUCCESS K \<and> out_bytes (E c) = Some v \<and>
          unat (out_size (E c)) = length v \<and> length v < 2 ^ 31"
    obtain a s4 where new: "NewByteArray (to_jsize (out_size (E c))) s3 = (a, s4)"
      by (cases "NewByteArray (to_jsize (out_size (E c))) s3") simp
    define s5 where "s5 = SetByteArrayRegion a 0 (to_jsize (out_size (E c))) (Some v) s4"
    from ok have "unat (out_size (E c)) = length v" "length v < 2 ^ 31"
      by simp_all
    from new_array_holds_bytes [OF this new s5_def]
    have a: "a = Some (length (heap s))" and h: "heap s5 = heap s3 @ [v]"
      and f: "pending s5 = pending s" "freed s5 = freed s"
        "undefined_behaviour s5 = undefined_behaviour s" "length (heap s3) = length (heap s)"
      by (simp_all add: s3_def)
    have r: "ret = (a, free (Some (Bytes v)) s5)"
      unfolding assms(2) unfold s5_def using ok new by simp
    show "fst ret = Some (length (heap s))"
      by (simp add: r a)
    show "length (heap (snd ret)) = Suc (length (heap s))"
      by (simp add: r h f free_def)
    show "heap (snd ret) ! length (heap s) = v"
      using f(4) by (simp add: r h free_def nth_append)
    show "freed (snd ret) = freed s @ [Bytes v]"
      by (simp add: r f free_def)
    show "pending (snd ret) = pending s"
      by (simp add: r f free_def)
    show "undefined_behaviour (snd ret) = undefined_behaviour s"
      by (simp add: r f free_def)
  }
  {
    assume bad: "result (E c) \<noteq> TDB_SUCCESS K"
    then have r: "ret = (None, throwTidesDBException vm (result (E c))
                                 (getErrorMessage K (result (E c))) s3)"
      unfolding assms(2) unfold by simp
    show "fst ret = None"
      by (simp add: r)
    show "length (heap (snd ret)) = length (heap s)"
      by (simp add: r throw_frame s3_def)
    show "freed (snd ret) = freed s"
      by (simp add: r throw_frame s3_def)
    show "pending (snd ret) \<noteq> None"
      by (simp add: r throw_pending)
    {
      assume "exception_constructible vm"
      then show "pending (snd ret) =
                 Some (TidesDBException (getErrorMessage K (result (E c))) (result (E c)))"
        by (simp add: r throw_constructible)
    }
  }
qed


theorem get_returns_value_or_raises_witness:
  "fst (nativeGet db_h deployed_vm (\<lambda>c. value_reply [118, 97, 108]) 1 2 0 one_key_state) =
     Some 1 \<and>
   heap (snd (nativeGet db_h deployed_vm (\<lambda>c. value_reply [118, 97, 108]) 1 2 0
                one_key_state)) ! 1 = [118, 97, 108] \<and>
   freed (snd (nativeGet db_h deployed_vm (\<lambda>c. value_reply [118, 97, 108]) 1 2 0
                 one_key_state)) = [Bytes [118, 97, 108]] \<and>
   fst (nativeGet db_h deployed_vm (\<lambda>c. reply (- 3)) 1 2 0 one_key_state) = None \<and>
   pending (snd (nativeGet db_h deployed_vm (\<lambda>c. reply (- 3)) 1 2 0 one_key_state)) =
     Some (TidesDBException ''not found'' (- 3))"
proof -
  let ?E = "\<lambda>c :: engine_call. value_reply [118, 97, 108]"
  let ?F = "\<lambda>c :: engine_call. reply (- 3)"
  let ?c = "tidesdb_txn_get 1 2 (GetByteArrayElements one_key_state 0)
              (GetArrayLength one_key_state 0)"
  have ok: "result (?E ?c) = TDB_SUCCESS db_h \<and> out_bytes (?E ?c) = Some [118, 97, 108] \<and>
            unat (out_size (?E ?c)) = length [118, 97, 108 :: jbyte] \<and>
            length [118, 97, 108 :: jbyte] < 2 ^ 31"
    by (simp add: value_reply_def reply_def db_h_def)
  have bad: "result (?F ?c) \<noteq> TDB_SUCCESS db_h"
    by (simp add: reply_def db_h_def)
  have m: "getErrorMessage db_h (- 3) = ''not found''" "result (?F ?c) = - 3"
    by (simp_all add: reply_def db_h_def getErrorMessage_def)
  have s: "length (heap one_key_state) = 1" "freed one_key_state = []"
    by (simp_all add: one_key_state_def fresh_state_def)
  from get_returns_value_or_raises [OF refl refl, where K = db_h and E = ?E
         and handle = 1 and cfHandle = 2 and s = one_key_state and key = 0
         and v = "[118, 97, 108]" and vm = deployed_vm] ok
  have 1: "fst (nativeGet db_h deployed_vm ?E 1 2 0 one_key_state) =
             Some (length (heap one_key_state))"
    and 2: "heap (snd (nativeGet db_h deployed_vm ?E 1 2 0 one_key_state)) !
              length (heap one_key_state) = [118, 97, 108]"
    and 3: "freed (snd (nativeGet db_h deployed_vm ?E 1 2 0 one_key_state)) =
              freed one_key_state @ [Bytes [118, 97, 108]]"
    by blast+
  from get_returns_value_or_raises [OF refl refl, where K = db_h and E = ?F
         and handle = 1 and cfHandle = 2 and s = one_key_state and key = 0
         and v = "[]" and vm = deployed_vm] bad deployed_constructible
  have 4: "fst (nativeGet db_h deployed_vm ?F 1 2 0 one_key_state) = None"
    and 5: "pending (snd (nativeGet db_h deployed_vm ?F 1 2 0 one_key_state)) =
              Some (TidesDBException (getErrorMessage db_h (result (?F ?c))) (result (?F ?c)))"
    by blast+
  from 1 2 3 4 5 show ?thesis
    unfolding m s by simp
qed

text \<open>
  The claim as written fails twice. Where the exception class does not resolve, a get
  that the engine answers with not-found leaves an exception that carries no code. And
  a value of \<open>2^31\<close> bytes has no Java array: its length is negative as a \<^verbatim>\<open>jsize\<close>,
  \<^verbatim>\<open>NewByteArray\<close> gives \<^verbatim>\<open>NULL\<close>, and the binding returns null although the engine
  succeeded.
\<close>

theorem get_claim_fails:
  "result (reply (- 3)) \<noteq> TDB_SUCCESS db_h \<and>
   pending (snd (nativeGet db_h (deployed_vm\<lparr>classes := []\<rparr>) (\<lambda>c. reply (- 3)) 1 2 0
                   one_key_state)) =
     Some \<lparr>ex_class = ''java/lang/NoClassDefFoundError'',
           ex_message = ''com/tidesdb/TidesDBException'', ex_code = None\<rparr> \<and>
   result (value_reply (replicate 2147483648 0)) = TDB_SUCCESS db_h \<and>
   fst (nativeGet db_h deployed_vm (\<lambda>c. value_reply (replicate 2147483648 0)) 1 2 0
          one_key_state) = None"
  by (simp add: nativeGet_def invoke_def Let_def split_beta reply_def value_reply_def db_h_def
      one_key_state_def fresh_state_def deployed_vm_def lent_def written_def native_write_def
      ReleaseByteArrayElements_def throwTidesDBException_def FindClass_def
      GetArrayLength_def GetByteArrayElements_def NewByteArray_def to_jsize_def)


subsection \<open>The caller's arrays\<close>

lemma throw_heap [simp]: "heap (throwTidesDBException vm c m s) = heap s"
  by (rule throw_frame)

lemma Release_abort_heap [simp]:
  "heap (ReleaseByteArrayElements vm array elems JNI_ABORT s) = heap s"
  by (simp add: ReleaseByteArrayElements_def)

lemma Release_copy_back:
  "elements_copied vm \<Longrightarrow> array < length (heap s) \<Longrightarrow>
     heap (ReleaseByteArrayElements vm array elems Copy_back_and_free s) ! array = elems"
  by (simp add: ReleaseByteArrayElements_def)

lemma lent_copy_heap: "elements_copied vm \<Longrightarrow> heap (snd (lent vm array elems w s)) = heap s"
  by (simp add: lent_def native_write_def)

lemma lent_unwritten_heap:
  "heap s = heap s0 \<Longrightarrow>
     heap (snd (lent vm array (GetByteArrayElements s0 array) None s)) = heap s0"
  by (simp add: lent_def native_write_def written_def GetByteArrayElements_def
      list_update_beyond)

lemma lent_heap:
  assumes "elements_copied vm \<or> w = None" and "heap s = heap s0"
  shows "heap (snd (lent vm array (GetByteArrayElements s0 array) w s)) = heap s0"
  using assms lent_copy_heap lent_unwritten_heap by metis

lemma invoke_heap [simp]: "heap (snd (invoke E c s)) = heap s"
  by (simp add: invoke_def)

lemma new_array_keeps_old:
  "take (length (heap s))
     (heap (SetByteArrayRegion (fst (NewByteArray m s)) st n b (snd (NewByteArray m s)))) =
   heap s"
  by (simp add: NewByteArray_def SetByteArrayRegion_def split: option.splits)


lemma nativePut_heap:
  assumes "elements_copied vm \<or> read_only E"
  shows "heap (nativePut K vm E handle cfHandle key val ttl s) = heap s"
proof -
  from assms have k: "elements_copied vm \<or> key_written (E c) = None"
    and v: "elements_copied vm \<or> value_written (E c) = None" for c
    by (auto simp: read_only_def)
  show ?thesis
    by (simp add: nativePut_def Let_def split_beta invoke_def lent_heap [OF k] lent_heap [OF v])
qed

lemma key_only_heap:
  assumes "elements_copied vm \<or> read_only E"
  shows "heap (nativeDelete K vm E handle cfHandle key s) = heap s"
    and "heap (nativeSeek K vm E handle key s) = heap s"
    and "heap (nativeSeekForPrev K vm E handle key s) = heap s"
proof -
  from assms have k: "elements_copied vm \<or> key_written (E c) = None" for c
    by (auto simp: read_only_def)
  show "heap (nativeDelete K vm E handle cfHandle key s) = heap s"
    by (simp add: nativeDelete_def Let_def split_beta invoke_def lent_heap [OF k])
  show "heap (nativeSeek K vm E handle key s) = heap s"
    by (simp add: nativeSeek_def Let_def split_beta invoke_def lent_heap [OF k])
  show "heap (nativeSeekForPrev K vm E handle key s) = heap s"
    by (simp add: nativeSeekForPrev_def Let_def split_beta invoke_def lent_heap [OF k])
qed

lemma nativeGet_heap:
  assumes "elements_copied vm \<or> read_only E"
  shows "take (length (heap s)) (heap (snd (nativeGet K vm E handle cfHandle key s))) = heap s"
proof -
  from assms have k: "elements_copied vm \<or> key_written (E c) = None" for c
    by (auto simp: read_only_def)
  define c where "c = tidesdb_txn_get handle cfHandle (GetByteArrayElements s key)
                        (GetArrayLength s key)"
  define s3 where "s3 = ReleaseByteArrayElements vm key
       (fst (lent vm key (GetByteArrayElements s key) (key_written (E c))
               (s\<lparr>calls := calls s @ [c]\<rparr>)))
       JNI_ABORT
       (snd (lent vm key (GetByteArrayElements s key) (key_written (E c))
               (s\<lparr>calls := calls s @ [c]\<rparr>)))"
  have h: "heap s3 = heap s"
    by (simp add: s3_def lent_heap [OF k])
  have "take (length (heap s3))
          (heap (SetByteArrayRegion (fst (NewByteArray m s3)) st n b (snd (NewByteArray m s3)))) =
        heap s3" for m st n b
    by (rule new_array_keeps_old)
  then show ?thesis
    unfolding h
    by (simp add: nativeGet_def Let_def split_beta invoke_def c_def [symmetric]
        s3_def [symmetric] h)
qed

lemma lent_heap_eq:
  "heap (snd (lent vm array elems w t)) =
     (if elements_copied vm then heap t else (heap t)[array := written elems w])"
  by (simp add: lent_def native_write_def)

lemma nativePut_as_engine_left:
  "heap (nativePut K vm E handle cfHandle key val ttl s) =
     as_engine_left vm s
       [(key, key_written (E (tidesdb_txn_put handle cfHandle (GetByteArrayElements s key)
                                (GetArrayLength s key) (GetByteArrayElements s val)
                                (GetArrayLength s val) (ucast ttl)))),
        (val, value_written (E (tidesdb_txn_put handle cfHandle (GetByteArrayElements s key)
                                  (GetArrayLength s key) (GetByteArrayElements s val)
                                  (GetArrayLength s val) (ucast ttl))))]"
  by (simp add: nativePut_def Let_def split_beta invoke_def as_engine_left_def lent_heap_eq)

lemma key_only_as_engine_left:
  "heap (nativeDelete K vm E handle cfHandle key s) =
     as_engine_left vm s
       [(key, key_written (E (tidesdb_txn_delete handle cfHandle (GetByteArrayElements s key)
                                (GetArrayLength s key))))]"
  "heap (nativeSeek K vm E handle key s) =
     as_engine_left vm s
       [(key, key_written (E (tidesdb_iter_seek handle (GetByteArrayElements s key)
                                (GetArrayLength s key))))]"
  "heap (nativeSeekForPrev K vm E handle key s) =
     as_engine_left vm s
       [(key, key_written (E (tidesdb_iter_seek_for_prev handle (GetByteArrayElements s key)
                                (GetArrayLength s key))))]"
  by (simp_all add: nativeDelete_def nativeSeek_def nativeSeekForPrev_def Let_def split_beta
      invoke_def as_engine_left_def lent_heap_eq)

lemma nativeGet_as_engine_left:
  "take (length (heap s)) (heap (snd (nativeGet K vm E handle cfHandle key s))) =
     as_engine_left vm s
       [(key, key_written (E (tidesdb_txn_get handle cfHandle (GetByteArrayElements s key)
                                (GetArrayLength s key))))]"
proof -
  define c where "c = tidesdb_txn_get handle cfHandle (GetByteArrayElements s key)
                        (GetArrayLength s key)"
  define s3 where "s3 = ReleaseByteArrayElements vm key
       (fst (lent vm key (GetByteArrayElements s key) (key_written (E c))
               (s\<lparr>calls := calls s @ [c]\<rparr>)))
       JNI_ABORT
       (snd (lent vm key (GetByteArrayElements s key) (key_written (E c))
               (s\<lparr>calls := calls s @ [c]\<rparr>)))"
  have h: "heap s3 = as_engine_left vm s [(key, key_written (E c))]"
    by (simp add: s3_def as_engine_left_def lent_heap_eq)
  have l: "length (heap s) = length (heap s3)"
    by (simp add: s3_def lent_heap_eq)
  have "take (length (heap s3))
          (heap (SetByteArrayRegion (fst (NewByteArray m s3)) st n b (snd (NewByteArray m s3)))) =
        heap s3" for m st n b
    by (rule new_array_keeps_old)
  then have "take (length (heap s)) (heap (snd (nativeGet K vm E handle cfHandle key s))) =
               heap s3"
    unfolding l
    by (simp add: nativeGet_def Let_def split_beta invoke_def c_def [symmetric]
        s3_def [symmetric])
  then show ?thesis
    unfolding h c_def .
qed

text \<open>
  Claim C10, as the code has it. Put, get, delete, seek and seek-for-prev, whether the
  engine succeeds or fails, never write to the elements they borrow and release them
  with \<^verbatim>\<open>JNI_ABORT\<close>, so nothing is written back: on return the Java arrays are as the
  engine call left them (a get adds its result array after them). The caller's arrays
  are therefore as they were whenever the virtual machine hands out copies of the
  elements, or the engine writes nothing into the buffers it is lent.
\<close>

theorem caller_arrays_unchanged:
  assumes "keyBytes = GetByteArrayElements s key" and "keyLen = GetArrayLength s key"
    and "valueBytes = GetByteArrayElements s val" and "valueLen = GetArrayLength s val"
    and "rp = E (tidesdb_txn_put handle cfHandle keyBytes keyLen valueBytes valueLen
                   (ucast ttl))"
    and "rg = E (tidesdb_txn_get handle cfHandle keyBytes keyLen)"
    and "rd = E (tidesdb_txn_delete handle cfHandle keyBytes keyLen)"
    and "rs = E (tidesdb_iter_seek handle keyBytes keyLen)"
    and "rf = E (tidesdb_iter_seek_for_prev handle keyBytes keyLen)"
  shows "heap (nativePut K vm E handle cfHandle key val ttl s) =
           as_engine_left vm s [(key, key_written rp), (val, value_written rp)] \<and>
         take (length (heap s)) (heap (snd (nativeGet K vm E handle cfHandle key s))) =
           as_engine_left vm s [(key, key_written rg)] \<and>
         heap (nativeDelete K vm E handle cfHandle key s) =
           as_engine_left vm s [(key, key_written rd)] \<and>
         heap (nativeSeek K vm E handle key s) = as_engine_left vm s [(key, key_written rs)] \<and>
         heap (nativeSeekForPrev K vm E handle key s) =
           as_engine_left vm s [(key, key_written rf)] \<and>
         (elements_copied vm \<or> read_only E \<longrightarrow>
            heap (nativePut K vm E handle cfHandle key val ttl s) = heap s \<and>
            take (length (heap s)) (heap (snd (nativeGet K vm E handle cfHandle key s))) =
              heap s \<and>
            heap (nativeDelete K vm E handle cfHandle key s) = heap s \<and>
            heap (nativeSeek K vm E handle key s) = heap s \<and>
            heap (nativeSeekForPrev K vm E handle key s) = heap s)"
  unfolding assms
  using nativePut_as_engine_left [where K = K and vm = vm and E = E and handle = handle
      and cfHandle = cfHandle and key = key and val = val and ttl = ttl and s = s]
    nativeGet_as_engine_left [where K = K and vm = vm and E = E and handle = handle
      and cfHandle = cfHandle and key = key and s = s]
    key_only_as_engine_left(1) [where K = K and vm = vm and E = E and handle = handle
      and cfHandle = cfHandle and key = key and s = s]
    key_only_as_engine_left(2,3) [where K = K and vm = vm and E = E and handle = handle
      and key = key and s = s]
    nativePut_heap [where K = K and vm = vm and E = E and handle = handle
      and cfHandle = cfHandle and key = key and val = val and ttl = ttl and s = s]
    nativeGet_heap [where K = K and vm = vm and E = E and handle = handle
      and cfHandle = cfHandle and key = key and s = s]
    key_only_heap(1) [where K = K and vm = vm and E = E and handle = handle
      and cfHandle = cfHandle and key = key and s = s]
    key_only_heap(2,3) [where K = K and vm = vm and E = E and handle = handle
      and key = key and s = s]
  by blast

theorem caller_arrays_unchanged_witness:
  "heap (nativePut db_h deployed_vm scribbling 1 2 0 1 0 two_arrays_state) = [[107, 49], [118]] \<and>
   heap (nativeDelete db_h deployed_vm scribbling 1 2 0 two_arrays_state) = [[107, 49], [118]] \<and>
   heap (nativeSeek db_h deployed_vm scribbling 1 0 two_arrays_state) = [[107, 49], [118]] \<and>
   heap (nativeSeekForPrev db_h deployed_vm scribbling 1 0 two_arrays_state) =
     [[107, 49], [118]] \<and>
   take 2 (heap (snd (nativeGet db_h deployed_vm scribbling 1 2 0 two_arrays_state))) =
     [[107, 49], [118]]"
proof -
  have c: "elements_copied deployed_vm \<or> read_only scribbling"
    by (simp add: deployed_vm_def)
  have h: "heap two_arrays_state = [[107, 49], [118]]"
    by (simp add: two_arrays_state_def)
  from caller_arrays_unchanged [OF refl refl refl refl refl refl refl refl refl,
         where K = db_h and vm = deployed_vm and E = scribbling and handle = 1
         and cfHandle = 2 and key = 0 and val = 1 and ttl = 0 and s = two_arrays_state] c
  have "heap (nativePut db_h deployed_vm scribbling 1 2 0 1 0 two_arrays_state) =
          heap two_arrays_state \<and>
        take (length (heap two_arrays_state))
          (heap (snd (nativeGet db_h deployed_vm scribbling 1 2 0 two_arrays_state))) =
          heap two_arrays_state \<and>
        heap (nativeDelete db_h deployed_vm scribbling 1 2 0 two_arrays_state) =
          heap two_arrays_state \<and>
        heap (nativeSeek db_h deployed_vm scribbling 1 0 two_arrays_state) =
          heap two_arrays_state \<and>
        heap (nativeSeekForPrev db_h deployed_vm scribbling 1 0 two_arrays_state) =
          heap two_arrays_state"
    by blast
  then show ?thesis
    unfolding h by (simp add: numeral_2_eq_2)
qed

text \<open>
  The claim as written, for every call, fails where the virtual machine hands out a
  pointer into the array in place of a copy: what the engine writes through the pointer
  is in the caller's array at once, and no release mode undoes it. A delete that the
  engine refuses after overwriting its key buffer leaves the key array overwritten.
\<close>

theorem arrays_changed_through_direct_pointer:
  "heap two_arrays_state = [[107, 49], [118]] \<and>
   heap (nativeDelete db_h (deployed_vm\<lparr>elements_copied := False\<rparr>) scribbling 1 2 0
           two_arrays_state) = [[0, 0], [118]]"
  by (simp add: nativeDelete_def invoke_def Let_def split_beta lent_def written_def
      native_write_def GetByteArrayElements_def two_arrays_state_def scribbling_def
      deployed_vm_def fresh_state_def)

text \<open>The release mode matters: mode 0 would copy the engine's writes back.\<close>

lemma write_back_would_change_the_array:
  "heap (ReleaseByteArrayElements deployed_vm 0 [0, 0] Copy_back_and_free two_arrays_state) =
     [[0, 0], [118]]"
  by (simp add: ReleaseByteArrayElements_def deployed_vm_def two_arrays_state_def)

subsection \<open>Column family statistics\<close>

lemma copy_loop_invariant:
  assumes "0 \<le> i" and "i \<le> n" and "nat n \<le> length src" and "length dst = nat n"
  shows "\<exists>res. copy_loop cast src n i dst = Some res \<and> length res = nat n \<and>
           (\<forall>j < nat n. res ! j = (if nat i \<le> j then cast (src ! j) else dst ! j))"
  using assms
proof (induction cast src n i dst rule: copy_loop.induct)
  case (1 cast src n i dst)
  show ?case
  proof (cases "i < n")
    case False
    with "1.prems" have "i = n"
      by simp
    then show ?thesis
      by (subst copy_loop.simps) (simp add: "1.prems")
  next
    case True
    with "1.prems" have inside: "\<not> (i < 0 \<or> length src \<le> nat i)"
      by auto
    from True "1.prems" have i: "nat i < nat n" "nat (i + 1) = Suc (nat i)"
      by auto
    let ?dst = "dst[nat i := cast (src ! nat i)]"
    from "1.IH" [OF True inside] "1.prems" True
    obtain res where res: "copy_loop cast src n (i + 1) ?dst = Some res"
      "length res = nat n"
      "\<forall>j < nat n. res ! j = (if nat (i + 1) \<le> j then cast (src ! j) else ?dst ! j)"
      by auto
    have "copy_loop cast src n i dst = Some res"
      using True inside res(1) by (subst copy_loop.simps) simp
    moreover have "res ! j = (if nat i \<le> j then cast (src ! j) else dst ! j)"
      if "j < nat n" for j
    proof (cases "j = nat i")
      case True
      with res(3) that i "1.prems"(4) show ?thesis
        by simp
    next
      case False
      with res(3) that i show ?thesis
        by (auto simp: not_less_eq_eq)
    qed
    ultimately show ?thesis
      using res(2) by blast
  qed
qed

lemma copy_loop_all:
  assumes "0 \<le> n" and "nat n \<le> length src"
  shows "copy_loop cast src n 0 (malloc n) = Some (map cast (take (nat n) src))"
proof -
  from copy_loop_invariant [of 0 n src "malloc n" cast] assms
  obtain res where res: "copy_loop cast src n 0 (malloc n) = Some res" "length res = nat n"
    "\<forall>j < nat n. res ! j = cast (src ! j)"
    by (auto simp: malloc_def)
  have "res = map cast (take (nat n) src)"
    using res(2,3) assms(2) by (intro nth_equalityI) simp_all
  with res(1) show ?thesis
    by simp
qed


lemma map_ucast_same [simp]: "map (ucast :: 64 word \<Rightarrow> 64 word) xs = xs"
  by (simp add: map_idI)

lemma map_option_ucast_same [simp]:
  "map_option (map (ucast :: 64 word \<Rightarrow> 64 word)) x = x"
  by (cases x) simp_all

lemma SetArrayRegion_whole:
  "length a = nat n \<Longrightarrow> length b = nat n \<Longrightarrow>
     SetArrayRegion (Some a) 0 n b s = (Some b, s)"
  by (auto simp: SetArrayRegion_def)

lemma filled_array:
  assumes "0 \<le> n" and "case src of None \<Rightarrow> True | Some xs \<Rightarrow> nat n \<le> length xs"
  shows "(case src of
            None \<Rightarrow> (Some (replicate (nat n) 0), s)
          | Some xs \<Rightarrow>
              (case copy_loop cast xs n 0 (malloc n) of
                 None \<Rightarrow> (Some (replicate (nat n) 0), s\<lparr>undefined_behaviour := True\<rparr>)
               | Some block \<Rightarrow>
                   let (a, t) = SetArrayRegion (Some (replicate (nat n) 0)) 0 n block s
                   in (a, free (Some (wrap block)) t))) =
         (Some (java_array n (map_option (map cast) src)),
          free (map_option (\<lambda>xs. wrap (map cast (take (nat n) xs))) src) s)"
  using assms
  by (cases src)
    (simp_all add: java_array_def free_def copy_loop_all SetArrayRegion_whole take_map)

lemma nativeGetStats_success:
  assumes "result (E (tidesdb_get_stats handle)) = TDB_SUCCESS K"
    and "out_stats (E (tidesdb_get_stats handle)) = Some stats"
    and "well_formed_stats stats"
    and "constructible vm ''com/tidesdb/Stats'' ''(IJ[J[ILcom/tidesdb/ColumnFamilyConfig;)V''"
  shows "fst (nativeGetStats K vm E handle s) =
           Some (Stats (num_levels stats) (memtable_size stats)
                   (Some (java_array (num_levels stats) (level_sizes stats)))
                   (Some (java_array (num_levels stats) (level_num_sstables stats))) None)"
    and "calls (snd (nativeGetStats K vm E handle s)) =
           calls s @ [tidesdb_get_stats handle, tidesdb_free_stats stats]"
    and "pending (snd (nativeGetStats K vm E handle s)) = pending s"
    and "undefined_behaviour (snd (nativeGetStats K vm E handle s)) = undefined_behaviour s"
proof -
  from assms(3) have n: "0 \<le> num_levels stats"
    and ls: "case level_sizes stats of None \<Rightarrow> True
             | Some xs \<Rightarrow> nat (num_levels stats) \<le> length xs"
    and ns: "case level_num_sstables stats of None \<Rightarrow> True
             | Some xs \<Rightarrow> nat (num_levels stats) \<le> length xs"
    by (simp_all add: well_formed_stats_def)
  note fill = filled_array [OF n ls, where cast = "ucast :: 64 word \<Rightarrow> 64 word" and wrap = Longs]
    filled_array [OF n ns, where cast = "\<lambda>x. x" and wrap = Ints]
  from assms(4) obtain sigs where cls: "map_of (classes vm) ''com/tidesdb/Stats'' = Some sigs"
    "''(IJ[J[ILcom/tidesdb/ColumnFamilyConfig;)V'' \<in> set sigs"
    by (auto simp: constructible_def split: option.splits)
  have unfold: "nativeGetStats K vm E handle s =
    (Some (Stats (num_levels stats) (memtable_size stats)
                   (Some (java_array (num_levels stats) (level_sizes stats)))
                   (Some (java_array (num_levels stats) (level_num_sstables stats))) None),
     (free (map_option (\<lambda>xs. Ints (take (nat (num_levels stats)) xs)) (level_num_sstables stats))
       (free (map_option (\<lambda>xs. Longs (take (nat (num_levels stats)) xs)) (level_sizes stats))
          (s\<lparr>calls := calls s @ [tidesdb_get_stats handle]\<rparr>)))
       \<lparr>calls := calls s @ [tidesdb_get_stats handle, tidesdb_free_stats stats]\<rparr>)"
    using assms(1,2) n
    by (simp add: nativeGetStats_def invoke_def Let_def NewArray_def fill
        FindClass_def GetMethodID_def NewObject_def cls option.map_comp comp_def
        option.map_ident)
  show "fst (nativeGetStats K vm E handle s) =
           Some (Stats (num_levels stats) (memtable_size stats)
                   (Some (java_array (num_levels stats) (level_sizes stats)))
                   (Some (java_array (num_levels stats) (level_num_sstables stats))) None)"
    by (simp add: unfold)
  show "calls (snd (nativeGetStats K vm E handle s)) =
           calls s @ [tidesdb_get_stats handle, tidesdb_free_stats stats]"
    by (simp add: unfold)
  show "pending (snd (nativeGetStats K vm E handle s)) = pending s"
    by (simp add: unfold)
  show "undefined_behaviour (snd (nativeGetStats K vm E handle s)) = undefined_behaviour s"
    by (simp add: unfold free_def split: option.splits)
qed


lemma java_array_length:
  "0 \<le> n \<Longrightarrow> (case src of None \<Rightarrow> True | Some xs \<Rightarrow> nat n \<le> length xs) \<Longrightarrow>
     length (java_array n src) = nat n"
  by (cases src) (simp_all add: java_array_def)

lemma java_array_nth:
  "src = Some xs \<Longrightarrow> i < nat n \<Longrightarrow> java_array n src ! i = xs ! i"
  by (simp add: java_array_def)

text \<open>
  Claim C7. For every successful call of \<^verbatim>\<open>nativeGetStats\<close> (the engine succeeds with
  well-formed statistics and the virtual machine resolves the class \<^verbatim>\<open>Stats\<close> and its
  constructor), the binding returns a \<^verbatim>\<open>Stats\<close> object whose level count and memtable
  size are the engine's, with two arrays of exactly \<^verbatim>\<open>num_levels\<close> elements each, whose
  element \<open>i\<close> is the engine's \<^verbatim>\<open>level_sizes[i]\<close> and \<^verbatim>\<open>level_num_sstables[i]\<close>. It
  raises nothing and stays within defined behaviour.
\<close>

theorem stats_fields_and_arrays:
  assumes "result (E (tidesdb_get_stats handle)) = TDB_SUCCESS K"
    and "out_stats (E (tidesdb_get_stats handle)) = Some stats"
    and "well_formed_stats stats"
    and "constructible vm ''com/tidesdb/Stats'' ''(IJ[J[ILcom/tidesdb/ColumnFamilyConfig;)V''"
    and "n = num_levels stats"
    and "levelSizes = java_array n (level_sizes stats)"
    and "levelNumSSTables = java_array n (level_num_sstables stats)"
  shows "fst (nativeGetStats K vm E handle s) =
           Some (Stats n (memtable_size stats) (Some levelSizes) (Some levelNumSSTables) None) \<and>
         length levelSizes = nat n \<and> length levelNumSSTables = nat n \<and>
         (\<forall>xs i. level_sizes stats = Some xs \<and> i < nat n \<longrightarrow> levelSizes ! i = xs ! i) \<and>
         (\<forall>xs i. level_num_sstables stats = Some xs \<and> i < nat n \<longrightarrow>
                 levelNumSSTables ! i = xs ! i) \<and>
         pending (snd (nativeGetStats K vm E handle s)) = pending s \<and>
         undefined_behaviour (snd (nativeGetStats K vm E handle s)) = undefined_behaviour s"
proof -
  from assms(3) have n: "0 \<le> num_levels stats"
    and ls: "case level_sizes stats of None \<Rightarrow> True
             | Some xs \<Rightarrow> nat (num_levels stats) \<le> length xs"
    and ns: "case level_num_sstables stats of None \<Rightarrow> True
             | Some xs \<Rightarrow> nat (num_levels stats) \<le> length xs"
    by (simp_all add: well_formed_stats_def)
  show ?thesis
    unfolding assms(5-7)
    using nativeGetStats_success [where E = E and handle = handle and K = K and stats = stats
        and vm = vm and s = s, OF assms(1-4)] java_array_length [OF n ls]
      java_array_length [OF n ns]
    by (simp add: java_array_nth)
qed

theorem stats_fields_and_arrays_witness:
  "fst (nativeGetStats db_h deployed_vm (\<lambda>c. (reply 0)\<lparr>out_stats := Some two_levels\<rparr>) 5
          fresh_state) =
     Some (Stats 2 4096 (Some [100, 200]) (Some [3, 1]) None)"
proof -
  let ?E = "\<lambda>c :: engine_call. (reply 0)\<lparr>out_stats := Some two_levels\<rparr>"
  have 1: "result (?E (tidesdb_get_stats 5)) = TDB_SUCCESS db_h"
    by (simp add: reply_def db_h_def)
  have 2: "out_stats (?E (tidesdb_get_stats 5)) = Some two_levels"
    by (simp add: reply_def)
  have 3: "well_formed_stats two_levels"
    by (simp add: well_formed_stats_def two_levels_def)
  have 4: "constructible deployed_vm ''com/tidesdb/Stats''
             ''(IJ[J[ILcom/tidesdb/ColumnFamilyConfig;)V''"
    by (simp add: constructible_def deployed_vm_def)
  have 5: "num_levels two_levels = 2" "memtable_size two_levels = 4096"
    "java_array 2 (level_sizes two_levels) = [100, 200]"
    "java_array 2 (level_num_sstables two_levels) = [3, 1]"
    by (simp_all add: two_levels_def java_array_def)
  from stats_fields_and_arrays [where E = ?E and handle = 5 and K = db_h and stats = two_levels
         and vm = deployed_vm and s = fresh_state, OF 1 2 3 4 refl refl refl]
  show ?thesis
    unfolding 5 by simp
qed


end
